theory Spec2Isabelle
  imports Main
begin

section \<open>The connection manager \<open>Auth\<close>: data model\<close>

text \<open>
  The class \<open>Auth\<close> (src/unnamed/part_001) is embedded as state-passing functions over
  a record of its private fields. Every \<open>throw\<close> of the class is a branch returning
  \<open>Inl\<close>; every call to a collaborator that is not part of the class goes through a
  field of the record \<open>env\<close> and is logged in the field \<open>trace\<close>, next to the events
  the class fires, in the order of the calls.
\<close>

datatype connState = Unauthenticated | Authenticating | Valid | Invalid

text \<open>
  \<open>Profile\<close>: the SSO variant carries start URL, region and optional scopes; the IAM
  variant has the subtype \<open>unknown\<close> (or none) or \<open>linked\<close>, the latter with
  \<open>ssoSession\<close>, \<open>ssoAccountId\<close> and \<open>ssoRoleName\<close>.
\<close>

datatype profile =
    SsoProfile string string "string list option"
  | UnknownIamProfile string
  | LinkedIamProfile string string string string

record profileMetadata =
  connectionState :: connState
  label :: "string option"
  source :: "string option"

record storedProfile =
  profile :: profile
  metadata :: profileMetadata

definition isSso :: "profile \<Rightarrow> bool" where
  "isSso p = (case p of SsoProfile u r sc \<Rightarrow> True | _ \<Rightarrow> False)"

text \<open>
  Errors as values. \<open>ToolkitError message code cancelled cause\<close> is the class's own
  wrapper; \<open>CollaboratorError kind code\<close> is whatever a collaborator throws.
\<close>

datatype error =
    Error string
  | TypeError string
  | ProfileNotFoundError string
  | DiskCacheError string
  | CollaboratorError string string
  | ToolkitError string "string option" bool "error option"

fun errCode :: "error \<Rightarrow> string option" where
  "errCode (DiskCacheError c) = Some c"
| "errCode (CollaboratorError k c) = Some c"
| "errCode (ToolkitError m c cn cause) = c"
| "errCode e = None"

fun isDiskCacheError :: "error \<Rightarrow> bool" where
  "isDiskCacheError (DiskCacheError c) = True"
| "isDiskCacheError e = False"

fun cancelled :: "error \<Rightarrow> bool" where
  "cancelled (ToolkitError m c cn cause) = cn"
| "cancelled e = False"

text \<open>
  A token provider is determined by the arguments \<open>getSsoTokenProvider\<close> passes to its
  factory: identifier, start URL, scopes and region. A credentials provider is either
  one the provider manager holds for an id, or the \<open>SsoCredentialsProvider\<close> built for a
  linked profile (id, client region, token provider, account id, role name).
\<close>

datatype tokenProvider = TokenProvider string string "string list option" string

datatype credentialsProvider =
    ManagedProvider string
  | SsoCredentialsProvider string string tokenProvider string string

fun getCredentialsId :: "credentialsProvider \<Rightarrow> string" where
  "getCredentialsId (ManagedProvider i) = i"
| "getCredentialsId (SsoCredentialsProvider i r tp a n) = i"

text \<open>
  \<open>Connection\<close>: the SSO variant spreads the stored profile into the object, the IAM
  variant keeps id, state and label only.
\<close>

datatype connType = Sso | Iam

record connection =
  conn_id :: string
  conn_type :: connType
  conn_profile :: "storedProfile option"
  conn_state :: connState
  conn_label :: string

record timeout =
  duration :: nat
  disposed :: bool

record declaredConnection =
  decl_startUrl :: string
  decl_ssoRegion :: string
  decl_source :: string

datatype raceOutcome = ChoseLogin | ChoseNo | Dismissed | TimerElapsed

datatype event =
    DidChangeActiveConnection "connection option"
  | DidChangeConnectionState string connState
  | DidUpdateConnection connection
  | DidDeleteConnection string "storedProfile option"
  | GetTokenCall tokenProvider
  | CreateTokenCall tokenProvider
  | InvalidateCall tokenProvider string
  | SsoLogoutCall string tokenProvider
  | InvalidateCredentialsCall string
  | GetCredentialsProviderCall string
  | AddProviderCall credentialsProvider
  | GetCachedCredentialsCall string
  | CanAutoConnectCall string
  | UpsertCredentialsCall string
  | ValidateCredentialsCall string
  | LoginPromptCall string nat
  | LoadIamProfilesCall

text \<open>
  The private state of an \<open>Auth\<close> object, the profile store it owns, the ambient
  context key \<open>aws.isInternalUser\<close>, and the state \<open>world\<close> of everything outside
  (token cache, credentials cache, the SSO service, the user).
\<close>

record 'w auth =
  store :: "string \<rightharpoonup> storedProfile"
  currentProfileId :: "string option"
  activeConnection :: "connection option"
  validationErrors :: "string \<rightharpoonup> error"
  invalidCredentialsTimeouts :: "string \<rightharpoonup> timeout"
  declaredOwn :: "string \<rightharpoonup> declaredConnection"
  declaredProto :: "declaredConnection option"
  isInternalUserContext :: "bool option"
  trace :: "event list"
  world :: 'w

text \<open>
  The collaborators and constants the class imports from files that are not part of
  the sources, as parameters: the error classifier \<open>isNetworkError\<close>, the constants
  \<open>errorCode.invalidConnection\<close>, \<open>internalStartUrl\<close>, \<open>builderIdStartUrl\<close>,
  \<open>scopesCodeCatalyst\<close>, the localized labels, the environment probes, and the
  behaviour of the token provider, the SSO client, the credentials cache and the
  credentials providers. A collaborator call reads and updates \<open>world\<close>; one that the
  class guards with \<open>try\<close>/\<open>catch\<close> may return an error.
\<close>

record 'w env =
  isNetworkError :: "error \<Rightarrow> bool"
  errorCodeInvalidConnection :: string
  internalStartUrl :: string
  builderIdStartUrl :: string
  builderIdText :: string
  iamIdentityCenterText :: string
  truncateStartUrl :: "string \<Rightarrow> string"
  getCodeCatalystDevEnvId :: "string option"
  isAmazonQ :: bool
  scopesCodeCatalyst :: "string list"
  detectSsoSessionNameForCodeCatalyst :: string
  randomUUID :: "'w \<Rightarrow> string \<times> 'w"
  providerGetToken :: "tokenProvider \<Rightarrow> 'w \<Rightarrow> (error + string option) \<times> 'w"
  providerCreateToken :: "tokenProvider \<Rightarrow> 'w \<Rightarrow> (error + string) \<times> 'w"
  providerInvalidate :: "tokenProvider \<Rightarrow> string \<Rightarrow> 'w \<Rightarrow> 'w"
  clientLogout :: "string \<Rightarrow> tokenProvider \<Rightarrow> 'w \<Rightarrow> 'w"
  storeInvalidateCredentials :: "string \<Rightarrow> 'w \<Rightarrow> 'w"
  managerGetCredentialsProvider :: "string \<Rightarrow> 'w \<Rightarrow> (error + bool) \<times> 'w"
  managerAddProvider :: "credentialsProvider \<Rightarrow> 'w \<Rightarrow> 'w"
  storeGetCredentials :: "string \<Rightarrow> 'w \<Rightarrow> (error + (string \<times> string) option) \<times> 'w"
  providerGetHashCode :: "credentialsProvider \<Rightarrow> string"
  providerGetDefaultRegion :: "credentialsProvider \<Rightarrow> string"
  providerCanAutoConnect :: "credentialsProvider \<Rightarrow> 'w \<Rightarrow> (error + bool) \<times> 'w"
  storeUpsertCredentials :: "credentialsProvider \<Rightarrow> 'w \<Rightarrow> (error + string) \<times> 'w"
  validateCredentials :: "string \<Rightarrow> string \<Rightarrow> 'w \<Rightarrow> (error + unit) \<times> 'w"
  loginPromptRace :: "string \<Rightarrow> nat \<Rightarrow> 'w \<Rightarrow> raceOutcome \<times> 'w"
  credentialProviderNames :: "(string \<times> string) list"

definition fire :: "event \<Rightarrow> 'w auth \<Rightarrow> 'w auth" where
  "fire e s = s\<lparr>trace := trace s @ [e]\<rparr>"

section \<open>The profile store\<close>

text \<open>
  Modelled from the spec: the class \<open>ProfileStore\<close> (imported from \<open>./connection\<close>, not
  part of the sources). \<open>getProfile\<close> returns the stored profile or nothing;
  \<open>getProfileOrThrow\<close> fails with NotFound if absent; \<open>addProfile\<close> fails if the id
  exists and stores the profile with fresh metadata (state \<open>unauthenticated\<close>);
  \<open>updateMetadata\<close> merges fields and fails if absent; \<open>deleteProfile\<close> removes;
  \<open>setCurrentProfileId\<close> sets the pointer.
\<close>

definition getProfile :: "'w auth \<Rightarrow> string \<Rightarrow> storedProfile option" where
  "getProfile s cid = store s cid"

definition getProfileOrThrow :: "'w auth \<Rightarrow> string \<Rightarrow> error + storedProfile" where
  "getProfileOrThrow s cid =
     (case store s cid of None \<Rightarrow> Inl (ProfileNotFoundError cid) | Some p \<Rightarrow> Inr p)"

definition initMetadata :: profileMetadata where
  "initMetadata = \<lparr>connectionState = Unauthenticated, label = None, source = None\<rparr>"

definition addProfile ::
  "string \<Rightarrow> profile \<Rightarrow> 'w auth \<Rightarrow> (error + storedProfile) \<times> 'w auth" where
  "addProfile cid p s =
     (case store s cid of
        Some q \<Rightarrow> (Inl (Error ''Profile already exists''), s)
      | None \<Rightarrow>
          (let sp = \<lparr>profile = p, metadata = initMetadata\<rparr>
           in (Inr sp, s\<lparr>store := (store s)(cid \<mapsto> sp)\<rparr>)))"

definition updateMetadata ::
  "string \<Rightarrow> (profileMetadata \<Rightarrow> profileMetadata) \<Rightarrow> 'w auth
     \<Rightarrow> (error + storedProfile) \<times> 'w auth" where
  "updateMetadata cid f s =
     (case store s cid of
        None \<Rightarrow> (Inl (ProfileNotFoundError cid), s)
      | Some p \<Rightarrow>
          (let sp = p\<lparr>metadata := f (metadata p)\<rparr>
           in (Inr sp, s\<lparr>store := (store s)(cid \<mapsto> sp)\<rparr>)))"

definition deleteProfile :: "string \<Rightarrow> 'w auth \<Rightarrow> 'w auth" where
  "deleteProfile cid s = s\<lparr>store := (store s)(cid := None)\<rparr>"

definition setCurrentProfileId :: "string option \<Rightarrow> 'w auth \<Rightarrow> 'w auth" where
  "setCurrentProfileId c s = s\<lparr>currentProfileId := c\<rparr>"

definition getConnectionState :: "'w auth \<Rightarrow> string \<Rightarrow> connState option" where
  "getConnectionState s cid =
     map_option (\<lambda>p. connectionState (metadata p)) (getProfile s cid)"

section \<open>State transitions\<close>

text \<open>
  \<open>Auth.updateConnectionState\<close> (lines 575-622). The telemetry span it records has no
  effect on the state and is left out. The result is the stored profile the method
  returns, or nothing for \<open>authenticating\<close>.
\<close>

definition disposeTimeout :: "string \<Rightarrow> 'w auth \<Rightarrow> 'w auth" where
  "disposeTimeout cid s =
     (case invalidCredentialsTimeouts s cid of
        None \<Rightarrow> s
      | Some t \<Rightarrow>
          s\<lparr>invalidCredentialsTimeouts :=
              (invalidCredentialsTimeouts s)(cid \<mapsto> t\<lparr>disposed := True\<rparr>)\<rparr>)"

definition updateConnectionState ::
  "string \<Rightarrow> connState \<Rightarrow> 'w auth \<Rightarrow> (error + storedProfile option) \<times> 'w auth" where
  "updateConnectionState cid cs s =
     (if cs = Authenticating then
        (Inr None, fire (DidChangeConnectionState cid cs) s)
      else
        case getProfileOrThrow s cid of
          Inl e \<Rightarrow> (Inl e, s)
        | Inr oldProfile \<Rightarrow>
            if connectionState (metadata oldProfile) = cs then (Inr (Some oldProfile), s)
            else
              (case updateMetadata cid (\<lambda>m. m\<lparr>connectionState := cs\<rparr>) s of
                 (Inl e, s1) \<Rightarrow> (Inl e, s1)
               | (Inr p, s1) \<Rightarrow>
                   (let s2 = (if cs \<noteq> Invalid
                              then disposeTimeout cid
                                     (s1\<lparr>validationErrors := (validationErrors s1)(cid := None)\<rparr>)
                              else s1);
                        s3 = (case activeConnection s2 of
                                None \<Rightarrow> s2
                              | Some c \<Rightarrow>
                                  if conn_id c = cid
                                  then fire (DidChangeActiveConnection (Some (c\<lparr>conn_state := cs\<rparr>)))
                                         (s2\<lparr>activeConnection := Some (c\<lparr>conn_state := cs\<rparr>)\<rparr>)
                                  else s2)
                    in (Inr (Some p), fire (DidChangeConnectionState cid cs) s3))))"

section \<open>Collaborator calls\<close>

text \<open>
  Each call to a collaborator appends its marker to \<open>trace\<close> and lets the collaborator
  update \<open>world\<close>.
\<close>

definition callGetToken ::
  "'w env \<Rightarrow> tokenProvider \<Rightarrow> 'w auth \<Rightarrow> (error + string option) \<times> 'w auth" where
  "callGetToken env tp s =
     (case providerGetToken env tp (world s) of
        (r, w) \<Rightarrow> (r, fire (GetTokenCall tp) (s\<lparr>world := w\<rparr>)))"

definition callCreateToken ::
  "'w env \<Rightarrow> tokenProvider \<Rightarrow> 'w auth \<Rightarrow> (error + string) \<times> 'w auth" where
  "callCreateToken env tp s =
     (case providerCreateToken env tp (world s) of
        (r, w) \<Rightarrow> (r, fire (CreateTokenCall tp) (s\<lparr>world := w\<rparr>)))"

definition callInvalidate :: "'w env \<Rightarrow> tokenProvider \<Rightarrow> string \<Rightarrow> 'w auth \<Rightarrow> 'w auth" where
  "callInvalidate env tp reason s =
     fire (InvalidateCall tp reason) (s\<lparr>world := providerInvalidate env tp reason (world s)\<rparr>)"

definition callClientLogout :: "'w env \<Rightarrow> string \<Rightarrow> tokenProvider \<Rightarrow> 'w auth \<Rightarrow> 'w auth" where
  "callClientLogout env region tp s =
     fire (SsoLogoutCall region tp) (s\<lparr>world := clientLogout env region tp (world s)\<rparr>)"

definition callInvalidateCredentials :: "'w env \<Rightarrow> string \<Rightarrow> 'w auth \<Rightarrow> 'w auth" where
  "callInvalidateCredentials env cid s =
     fire (InvalidateCredentialsCall cid)
       (s\<lparr>world := storeInvalidateCredentials env cid (world s)\<rparr>)"

definition callLoginPromptRace ::
  "'w env \<Rightarrow> string \<Rightarrow> nat \<Rightarrow> 'w auth \<Rightarrow> raceOutcome \<times> 'w auth" where
  "callLoginPromptRace env connLabel ms s =
     (case loginPromptRace env connLabel ms (world s) of
        (r, w) \<Rightarrow> (r, fire (LoginPromptCall connLabel ms) (s\<lparr>world := w\<rparr>)))"

section \<open>Providers and projections\<close>

text \<open>\<open>Auth.getSsoTokenProvider\<close> (lines 761-782), on the fields of an SSO profile.\<close>

definition getSsoTokenProvider ::
  "'w env \<Rightarrow> string \<Rightarrow> string \<Rightarrow> string \<Rightarrow> string list option \<Rightarrow> tokenProvider" where
  "getSsoTokenProvider env cid u region sc =
     (let shouldUseSoftwareStatement =
            (getCodeCatalystDevEnvId env \<noteq> None \<and>
             (case sc of
                None \<Rightarrow> False
              | Some scs \<Rightarrow> list_all (\<lambda>scope. scope \<in> set (scopesCodeCatalyst env)) scs));
          tokenIdentifier =
            (if shouldUseSoftwareStatement then detectSsoSessionNameForCodeCatalyst env else cid)
      in TokenProvider tokenIdentifier u sc region)"

text \<open>\<open>Auth.getSsoProfileLabel\<close> (lines 1063-1069).\<close>

definition getSsoProfileLabel :: "'w env \<Rightarrow> string \<Rightarrow> string" where
  "getSsoProfileLabel env u =
     (if u = builderIdStartUrl env then builderIdText env
      else iamIdentityCenterText env @ '' ('' @ truncateStartUrl env u @ '')'')"

text \<open>\<open>Auth.getSsoConnection\<close> (lines 798-812) and \<open>Auth.getIamConnection\<close> (784-796).\<close>

definition getSsoConnection :: "'w env \<Rightarrow> string \<Rightarrow> storedProfile \<Rightarrow> connection" where
  "getSsoConnection env cid sp =
     \<lparr>conn_id = cid, conn_type = Sso, conn_profile = Some sp,
      conn_state = connectionState (metadata sp),
      conn_label =
        (case label (metadata sp) of
           Some l \<Rightarrow> l
         | None \<Rightarrow>
             (case profile sp of
                SsoProfile u r sc \<Rightarrow> getSsoProfileLabel env u
              | _ \<Rightarrow> cid))\<rparr>"

definition getIamConnection :: "string \<Rightarrow> storedProfile \<Rightarrow> connection" where
  "getIamConnection cid sp =
     \<lparr>conn_id = cid, conn_type = Iam, conn_profile = None,
      conn_state = connectionState (metadata sp),
      conn_label =
        (case label (metadata sp) of
           Some l \<Rightarrow> l
         | None \<Rightarrow>
             (case profile sp of
                LinkedIamProfile n session acct role \<Rightarrow> n
              | _ \<Rightarrow> cid))\<rparr>"

section \<open>Error classification\<close>

text \<open>
  \<open>Auth.throwOnRecoverableError\<close> (lines 868-882): the error it throws, if any.
  \<open>Auth.handleSsoTokenError\<close> (lines 673-678); \<open>UnknownError.cast\<close> leaves a value
  that is an error as it is.
\<close>

definition throwOnRecoverableError :: "'w env \<Rightarrow> error \<Rightarrow> error option" where
  "throwOnRecoverableError env e =
     (if isNetworkError env e then
        Some (ToolkitError ''Failed to update connection due to networking issues''
                (errCode e) False (Some e))
      else if isDiskCacheError e then
        Some (ToolkitError ''Failed to update connection due to file system operation failures''
                (errCode e) False (Some e))
      else None)"

definition handleSsoTokenError ::
  "'w env \<Rightarrow> string \<Rightarrow> error \<Rightarrow> 'w auth \<Rightarrow> (error + unit) \<times> 'w auth" where
  "handleSsoTokenError env cid err s =
     (case throwOnRecoverableError env err of
        Some t \<Rightarrow> (Inl t, s)
      | None \<Rightarrow> (Inr (), s\<lparr>validationErrors := (validationErrors s)(cid \<mapsto> err)\<rparr>))"

section \<open>Credentials\<close>

text \<open>
  \<open>Auth.createCachedCredentials\<close> (lines 832-839) and \<open>Auth.getCachedCredentials\<close>
  (lines 841-846).
\<close>

definition createCachedCredentials ::
  "'w env \<Rightarrow> credentialsProvider \<Rightarrow> 'w auth \<Rightarrow> (error + string) \<times> 'w auth" where
  "createCachedCredentials env provider s =
     (let providerId = getCredentialsId provider;
          s1 = callInvalidateCredentials env providerId s
      in case storeUpsertCredentials env provider (world s1) of
           (Inl e, w) \<Rightarrow> (Inl e, fire (UpsertCredentialsCall providerId) (s1\<lparr>world := w\<rparr>))
         | (Inr credentials, w) \<Rightarrow>
             (let s2 = fire (UpsertCredentialsCall providerId) (s1\<lparr>world := w\<rparr>)
              in case validateCredentials env credentials
                        (providerGetDefaultRegion env provider) (world s2) of
                   (Inl e, w2) \<Rightarrow>
                     (Inl e, fire (ValidateCredentialsCall providerId) (s2\<lparr>world := w2\<rparr>))
                 | (Inr u, w2) \<Rightarrow>
                     (Inr credentials,
                      fire (ValidateCredentialsCall providerId) (s2\<lparr>world := w2\<rparr>))))"

definition getCachedCredentials ::
  "'w env \<Rightarrow> credentialsProvider \<Rightarrow> 'w auth \<Rightarrow> (error + string option) \<times> 'w auth" where
  "getCachedCredentials env provider s =
     (case storeGetCredentials env (getCredentialsId provider) (world s) of
        (Inl e, w) \<Rightarrow>
          (Inl e, fire (GetCachedCredentialsCall (getCredentialsId provider)) (s\<lparr>world := w\<rparr>))
      | (Inr creds, w) \<Rightarrow>
          (Inr (case creds of
                  None \<Rightarrow> None
                | Some (credentials, credentialsHashCode) \<Rightarrow>
                    if credentialsHashCode = providerGetHashCode env provider
                    then Some credentials else None),
           fire (GetCachedCredentialsCall (getCredentialsId provider)) (s\<lparr>world := w\<rparr>)))"

text \<open>
  \<open>Auth.getSsoLinkedCredentialsProvider\<close> (lines 701-722) and
  \<open>Auth.getCredentialsProvider\<close> (lines 688-699). A profile without the field
  \<open>subtype\<close> takes the branch of the subtype \<open>unknown\<close>.
\<close>

definition getSsoLinkedCredentialsProvider ::
  "'w env \<Rightarrow> string \<Rightarrow> string \<Rightarrow> string \<Rightarrow> string \<Rightarrow> 'w auth
     \<Rightarrow> (error + credentialsProvider) \<times> 'w auth" where
  "getSsoLinkedCredentialsProvider env cid session acct role s =
     (case getProfile s session of
        None \<Rightarrow> (Inl (Error (''Source profile no longer exists for '' @ cid)), s)
      | Some sourceProfile \<Rightarrow>
          (case profile sourceProfile of
             SsoProfile u r sc \<Rightarrow>
               (let tokenProvider = getSsoTokenProvider env session u r sc;
                    credentialsProvider = SsoCredentialsProvider cid r tokenProvider acct role
                in (Inr credentialsProvider,
                    fire (AddProviderCall credentialsProvider)
                      (s\<lparr>world := managerAddProvider env credentialsProvider (world s)\<rparr>)))
           | _ \<Rightarrow> (Inl (Error (''Source profile is not an SSO profile for '' @ cid)), s)))"

definition getCredentialsProvider ::
  "'w env \<Rightarrow> string \<Rightarrow> profile \<Rightarrow> 'w auth \<Rightarrow> (error + credentialsProvider) \<times> 'w auth" where
  "getCredentialsProvider env cid p s =
     (case p of
        LinkedIamProfile n session acct role \<Rightarrow>
          getSsoLinkedCredentialsProvider env cid session acct role s
      | _ \<Rightarrow>
          (case managerGetCredentialsProvider env cid (world s) of
             (Inl e, w) \<Rightarrow> (Inl e, fire (GetCredentialsProviderCall cid) (s\<lparr>world := w\<rparr>))
           | (Inr False, w) \<Rightarrow>
               (Inl (Error (''Credentials provider not found: '' @ cid)),
                fire (GetCredentialsProviderCall cid) (s\<lparr>world := w\<rparr>))
           | (Inr True, w) \<Rightarrow>
               (Inr (ManagedProvider cid),
                fire (GetCredentialsProviderCall cid) (s\<lparr>world := w\<rparr>))))"

section \<open>Authentication\<close>

text \<open>
  \<open>Auth._authenticate\<close> (lines 816-830). The callback is a computation on the state;
  the optional flag \<open>invalidate\<close> is false when left out.
\<close>

definition authenticateCatch ::
  "'w env \<Rightarrow> string \<Rightarrow> bool \<Rightarrow> connState \<Rightarrow> error \<Rightarrow> 'w auth \<Rightarrow> (error + 'a) \<times> 'w auth" where
  "authenticateCatch env cid invalidate originalState err s =
     (case handleSsoTokenError env cid err s of
        (Inl e, s1) \<Rightarrow> (Inl e, s1)
      | (Inr u, s1) \<Rightarrow>
          (case updateConnectionState cid (if invalidate then Invalid else originalState) s1 of
             (Inl e, s2) \<Rightarrow> (Inl e, s2)
           | (Inr p, s2) \<Rightarrow> (Inl err, s2)))"

definition authenticate_impl ::
  "'w env \<Rightarrow> string \<Rightarrow> ('w auth \<Rightarrow> (error + 'a) \<times> 'w auth) \<Rightarrow> bool \<Rightarrow> 'w auth
     \<Rightarrow> (error + 'a) \<times> 'w auth" where
  "authenticate_impl env cid callback invalidate s =
     (let originalState =
            (case getConnectionState s cid of None \<Rightarrow> Unauthenticated | Some st \<Rightarrow> st)
      in case updateConnectionState cid Authenticating s of
           (Inl e, s1) \<Rightarrow> (Inl e, s1)
         | (Inr u, s1) \<Rightarrow>
             (case callback s1 of
                (Inl err, s2) \<Rightarrow> authenticateCatch env cid invalidate originalState err s2
              | (Inr result, s2) \<Rightarrow>
                  (case updateConnectionState cid Valid s2 of
                     (Inl err, s3) \<Rightarrow> authenticateCatch env cid invalidate originalState err s3
                   | (Inr p, s3) \<Rightarrow> (Inr result, s3))))"

text \<open>
  Modelled from the spec: \<open>keyedDebounce\<close> (imported from
  \<open>../shared/utilities/functionUtils\<close>, not part of the sources) coalesces a call with
  one in flight under the same key. In this sequential embedding no call is in flight
  when a call starts, so \<open>authenticate = keyedDebounce(_authenticate)\<close> runs
  \<open>_authenticate\<close>.
\<close>

definition authenticate ::
  "'w env \<Rightarrow> string \<Rightarrow> ('w auth \<Rightarrow> (error + 'a) \<times> 'w auth) \<Rightarrow> bool \<Rightarrow> 'w auth
     \<Rightarrow> (error + 'a) \<times> 'w auth" where
  "authenticate env cid callback invalidate s = authenticate_impl env cid callback invalidate s"

section \<open>Validation\<close>

text \<open>
  The last part of \<open>runCheck\<close> in \<open>Auth.validateConnection\<close> (lines 653-663): the
  credentials check of an IAM profile.
\<close>

definition runCheckCredentials ::
  "'w env \<Rightarrow> string \<Rightarrow> profile \<Rightarrow> 'w auth \<Rightarrow> (error + storedProfile option) \<times> 'w auth" where
  "runCheckCredentials env cid p s =
     (case getCredentialsProvider env cid p s of
        (Inl e, s1) \<Rightarrow> (Inl e, s1)
      | (Inr provider, s1) \<Rightarrow>
          (case getCachedCredentials env provider s1 of
             (Inl e, s2) \<Rightarrow> (Inl e, s2)
           | (Inr (Some credentials), s2) \<Rightarrow> updateConnectionState cid Valid s2
           | (Inr None, s2) \<Rightarrow>
               (case providerCanAutoConnect env provider (world s2) of
                  (Inl e, w) \<Rightarrow>
                    (Inl e, fire (CanAutoConnectCall (getCredentialsId provider)) (s2\<lparr>world := w\<rparr>))
                | (Inr True, w) \<Rightarrow>
                    (case authenticate env cid (createCachedCredentials env provider) False
                            (fire (CanAutoConnectCall (getCredentialsId provider))
                               (s2\<lparr>world := w\<rparr>)) of
                       (Inl e, s3) \<Rightarrow> (Inl e, s3)
                     | (Inr credentials, s3) \<Rightarrow>
                         (case getProfileOrThrow s3 cid of
                            Inl e \<Rightarrow> (Inl e, s3)
                          | Inr sp \<Rightarrow> (Inr (Some sp), s3)))
                | (Inr False, w) \<Rightarrow>
                    updateConnectionState cid Invalid
                      (fire (CanAutoConnectCall (getCredentialsId provider))
                         (s2\<lparr>world := w\<rparr>)))))"

text \<open>
  The handler \<open>Auth.validateConnection\<close> attaches to \<open>runCheck\<close> (lines 667-670).
\<close>

definition validateCatch ::
  "'w env \<Rightarrow> string \<Rightarrow> error \<Rightarrow> 'w auth \<Rightarrow> (error + storedProfile option) \<times> 'w auth" where
  "validateCatch env cid err s =
     (case handleSsoTokenError env cid err s of
        (Inl e, s1) \<Rightarrow> (Inl e, s1)
      | (Inr u, s1) \<Rightarrow>
          (case updateConnectionState cid Invalid s1 of
             (Inl e, s2) \<Rightarrow> (Inl e, s2)
           | (Inr p, s2) \<Rightarrow> (Inr None, s2)))"

text \<open>
  \<open>Auth.validateConnection\<close> (lines 629-671). The method calls itself on the source of
  a linked profile, and only after checking that the source is an SSO profile, whose
  validation makes no further call: the recursion ends after one step.
\<close>

function validateConnection ::
  "'w env \<Rightarrow> string \<Rightarrow> storedProfile \<Rightarrow> 'w auth \<Rightarrow> (error + storedProfile option) \<times> 'w auth" where
  "validateConnection env cid sp s =
     (case
        (case profile sp of
           SsoProfile u r sc \<Rightarrow>
             (case callGetToken env (getSsoTokenProvider env cid u r sc) s of
                (Inl e, s1) \<Rightarrow> (Inl e, s1)
              | (Inr None, s1) \<Rightarrow> updateConnectionState cid Invalid s1
              | (Inr (Some t), s1) \<Rightarrow> updateConnectionState cid Valid s1)
         | UnknownIamProfile n \<Rightarrow> runCheckCredentials env cid (profile sp) s
         | LinkedIamProfile n session acct role \<Rightarrow>
             (case getProfileOrThrow s session of
                Inl e \<Rightarrow> (Inl e, s)
              | Inr sourceProfile \<Rightarrow>
                  if \<not> isSso (profile sourceProfile)
                  then (Inl (Error ''Linked profiles must use an SSO connection''), s)
                  else
                    (case validateConnection env session sourceProfile s of
                       (Inl e, s1) \<Rightarrow> (Inl e, s1)
                     | (Inr validatedSource, s1) \<Rightarrow>
                         if map_option (\<lambda>q. connectionState (metadata q)) validatedSource
                              \<noteq> Some Valid
                         then updateConnectionState cid Invalid s1
                         else runCheckCredentials env cid (profile sp) s1)))
      of
        (Inl err, s') \<Rightarrow> validateCatch env cid err s'
      | (Inr v, s') \<Rightarrow> (Inr v, s'))"
  by pat_completeness auto
termination
  by (relation "measure (\<lambda>(env, cid, sp, s). if isSso (profile sp) then 0 else 1)")
     (auto simp: isSso_def)

declare validateConnection.simps [simp del]

section \<open>Invalidation, logout and deletion\<close>

text \<open>
  \<open>Auth.invalidateConnection\<close> (lines 548-573). The SSO client's \<open>logout\<close> is called
  unless \<open>skipGlobalLogout\<close> is set, and a failure of it is only logged.
\<close>

definition invalidateConnection ::
  "'w env \<Rightarrow> string \<Rightarrow> bool \<Rightarrow> 'w auth \<Rightarrow> (error + unit) \<times> 'w auth" where
  "invalidateConnection env cid skipGlobalLogout s =
     (case getProfileOrThrow s cid of
        Inl e \<Rightarrow> (Inl e, s)
      | Inr sp \<Rightarrow>
          (let s1 =
                 (case profile sp of
                    SsoProfile u r sc \<Rightarrow>
                      (let provider = getSsoTokenProvider env cid u r sc;
                           sa = (if \<not> skipGlobalLogout
                                 then callClientLogout env r provider s else s)
                       in if getCodeCatalystDevEnvId env = None \<or> isAmazonQ env
                          then callInvalidate env provider ''explicitInvalidation'' sa
                          else sa)
                  | _ \<Rightarrow> callInvalidateCredentials env cid s)
           in case updateConnectionState cid Invalid s1 of
                (Inl e, s2) \<Rightarrow> (Inl e, s2)
              | (Inr p, s2) \<Rightarrow> (Inr (), s2)))"

text \<open>\<open>Auth.logout\<close> (lines 244-253).\<close>

definition logout :: "'w env \<Rightarrow> 'w auth \<Rightarrow> (error + unit) \<times> 'w auth" where
  "logout env s =
     (case activeConnection s of
        None \<Rightarrow> (Inr (), s)
      | Some c \<Rightarrow>
          (case invalidateConnection env (conn_id c) False (setCurrentProfileId None s) of
             (Inl e, s1) \<Rightarrow> (Inl e, s1)
           | (Inr u, s1) \<Rightarrow>
               (Inr (), fire (DidChangeActiveConnection None) (s1\<lparr>activeConnection := None\<rparr>))))"

text \<open>
  Modelled from the spec: \<open>loadIamProfilesIntoStore\<close> (imported from \<open>./connection\<close>, not
  part of the sources). It reloads the environment-sourced IAM profiles into the store
  and drops the IAM profiles that no longer resolve: a linked profile resolves while
  its source is a stored SSO profile, any other IAM profile while the provider manager
  names a provider for its id.
\<close>

definition resolves :: "(string \<times> string) list \<Rightarrow> (string \<rightharpoonup> storedProfile) \<Rightarrow> string \<Rightarrow> profile \<Rightarrow> bool" where
  "resolves names m cid p =
     (case p of
        SsoProfile u r sc \<Rightarrow> True
      | UnknownIamProfile n \<Rightarrow> cid \<in> set (map fst names)
      | LinkedIamProfile n session acct role \<Rightarrow>
          (case m session of None \<Rightarrow> False | Some q \<Rightarrow> isSso (profile q)))"

definition addMissing ::
  "string \<times> string \<Rightarrow> (string \<rightharpoonup> storedProfile) \<Rightarrow> (string \<rightharpoonup> storedProfile)" where
  "addMissing e m =
     (case m (fst e) of
        Some q \<Rightarrow> m
      | None \<Rightarrow> m(fst e \<mapsto> \<lparr>profile = UnknownIamProfile (snd e), metadata = initMetadata\<rparr>))"

definition loadIamProfilesIntoStore :: "'w env \<Rightarrow> 'w auth \<Rightarrow> 'w auth" where
  "loadIamProfilesIntoStore env s =
     (let names = credentialProviderNames env;
          kept = (\<lambda>i. case store s i of
                         None \<Rightarrow> None
                       | Some q \<Rightarrow> if resolves names (store s) i (profile q) then Some q else None)
      in fire LoadIamProfilesCall (s\<lparr>store := fold addMissing names kept\<rparr>))"

text \<open>\<open>Auth.clearStaleLinkedIamConnections\<close> (lines 390-401).\<close>

definition clearStaleLinkedIamConnections :: "'w env \<Rightarrow> 'w auth \<Rightarrow> 'w auth" where
  "clearStaleLinkedIamConnections env s =
     (let s1 = loadIamProfilesIntoStore env s
      in case activeConnection s1 of
           None \<Rightarrow> s1
         | Some c \<Rightarrow>
             if getProfile s1 (conn_id c) = None
             then fire (DidChangeActiveConnection None) (s1\<lparr>activeConnection := None\<rparr>)
             else s1)"

text \<open>\<open>Auth.deleteConnection\<close> (lines 343-368).\<close>

definition deleteConnection :: "'w env \<Rightarrow> string \<Rightarrow> 'w auth \<Rightarrow> (error + unit) \<times> 'w auth" where
  "deleteConnection env connId s =
     (case getProfile s connId of
        None \<Rightarrow> (Inr (), fire (DidDeleteConnection connId None) s)
      | Some sp \<Rightarrow>
          (case (if map_option conn_id (activeConnection s) = Some connId
                 then logout env s
                 else invalidateConnection env connId False s) of
             (Inl e, s1) \<Rightarrow> (Inl e, s1)
           | (Inr u, s1) \<Rightarrow>
               (let s2 = deleteProfile connId s1;
                    s3 = (if isSso (profile sp)
                          then clearStaleLinkedIamConnections env s2 else s2)
                in (Inr (), fire (DidDeleteConnection connId (Some sp)) s3))))"

section \<open>Creating and using connections\<close>

text \<open>
  \<open>Auth.createConnection\<close> (lines 317-340). The result of a successful call is the
  projection of the profile as \<open>addProfile\<close> returned it.
\<close>

definition createConnection ::
  "'w env \<Rightarrow> profile \<Rightarrow> 'w auth \<Rightarrow> (error + connection) \<times> 'w auth" where
  "createConnection env p s =
     (case p of
        SsoProfile u r sc \<Rightarrow>
          (case randomUUID env (world s) of
             (cid, w) \<Rightarrow>
               (let s0 = snd (updateConnectionState cid Authenticating (s\<lparr>world := w\<rparr>));
                    tokenProvider = getSsoTokenProvider env cid u r sc;
                    acquired =
                      (case callGetToken env tokenProvider s0 of
                         (Inl e, s1) \<Rightarrow> (Inl e, s1)
                       | (Inr (Some t), s1) \<Rightarrow> (Inr t, s1)
                       | (Inr None, s1) \<Rightarrow> callCreateToken env tokenProvider s1)
                in case acquired of
                     (Inl err, s2) \<Rightarrow> (Inl err, deleteProfile cid s2)
                   | (Inr t, s2) \<Rightarrow>
                       (case addProfile cid p s2 of
                          (Inl err, s3) \<Rightarrow> (Inl err, deleteProfile cid s3)
                        | (Inr storedProfile, s3) \<Rightarrow>
                            (case updateConnectionState cid Valid s3 of
                               (Inl err, s4) \<Rightarrow> (Inl err, deleteProfile cid s4)
                             | (Inr q, s4) \<Rightarrow>
                                 (Inr (getSsoConnection env cid storedProfile), s4)))))
      | _ \<Rightarrow> (Inl (Error ''Creating IAM connections is not supported''), s))"






section \<open>Interactive recovery\<close>

text \<open>
  Modelled from the spec: the class \<open>Timeout\<close> (imported from
  \<open>../shared/utilities/timeoutUtils\<close>, not part of the sources). The prompt is raced
  against the timer; when the timer elapses first the race settles without a choice,
  as when the user dismisses the prompt.
\<close>

definition raceResponse :: "raceOutcome \<Rightarrow> string option" where
  "raceResponse r =
     (case r of
        ChoseLogin \<Rightarrow> Some ''Login''
      | ChoseNo \<Rightarrow> Some ''No''
      | Dismissed \<Rightarrow> None
      | TimerElapsed \<Rightarrow> None)"

text \<open>
  \<open>Auth.handleInvalidCredentials\<close> (lines 897-952); \<open>connLabel\<close> is the label its
  prompt shows (line 930).
\<close>

definition connLabel :: "'w env \<Rightarrow> string \<Rightarrow> storedProfile \<Rightarrow> string" where
  "connLabel env cid sp =
     (case label (metadata sp) of
        Some l \<Rightarrow> l
      | None \<Rightarrow>
          (case profile sp of
             SsoProfile u r sc \<Rightarrow> getSsoProfileLabel env u
           | _ \<Rightarrow> cid))"

definition handleInvalidCredentials ::
  "'w env \<Rightarrow> string \<Rightarrow> ('w auth \<Rightarrow> (error + 'a) \<times> 'w auth) \<Rightarrow> 'w auth
     \<Rightarrow> (error + 'a) \<times> 'w auth" where
  "handleInvalidCredentials env cid refresh s =
     (case getProfileOrThrow s cid of
        Inl err \<Rightarrow>
          (case deleteConnection env cid s of
             (Inl e, s1) \<Rightarrow> (Inl e, s1)
           | (Inr u, s1) \<Rightarrow> (Inl err, s1))
      | Inr sp \<Rightarrow>
          (let previousState = connectionState (metadata sp)
           in case updateConnectionState cid Invalid s of
                (Inl e, s1) \<Rightarrow> (Inl e, s1)
              | (Inr q, s1) \<Rightarrow>
                  if previousState = Invalid then
                    (Inl (ToolkitError ''Connection is invalid or expired. Try logging in again.''
                            (Some (errorCodeInvalidConnection env)) False
                            (validationErrors s1 cid)), s1)
                  else if previousState = Valid then
                    (let s2 = s1\<lparr>invalidCredentialsTimeouts :=
                                   (invalidCredentialsTimeouts s1)
                                     (cid \<mapsto> \<lparr>duration = 60000, disposed = False\<rparr>)\<rparr>
                     in case callLoginPromptRace env (connLabel env cid sp) 60000 s2 of
                          (resp, s3) \<Rightarrow>
                            if raceResponse resp \<noteq> Some ''Login'' then
                              (Inl (ToolkitError ''User cancelled login''
                                      (Some (errorCodeInvalidConnection env)) True
                                      (validationErrors s3 cid)), s3)
                            else authenticate env cid refresh False s3)
                  else authenticate env cid refresh False s1))"

text \<open>
  \<open>Auth._getToken\<close> (lines 850-858); as for \<open>authenticate\<close>, \<open>getToken =
  keyedDebounce(_getToken)\<close> runs it when no call is in flight.
\<close>

definition getToken_impl ::
  "'w env \<Rightarrow> string \<Rightarrow> tokenProvider \<Rightarrow> 'w auth \<Rightarrow> (error + string) \<times> 'w auth" where
  "getToken_impl env cid provider s =
     (case callGetToken env provider s of
        (Inl err, s1) \<Rightarrow>
          (case throwOnRecoverableError env err of
             Some t \<Rightarrow> (Inl t, s1)
           | None \<Rightarrow>
               handleInvalidCredentials env cid (callCreateToken env provider)
                 (s1\<lparr>validationErrors := (validationErrors s1)(cid \<mapsto> err)\<rparr>))
      | (Inr (Some token), s1) \<Rightarrow> (Inr token, s1)
      | (Inr None, s1) \<Rightarrow> handleInvalidCredentials env cid (callCreateToken env provider) s1)"

section \<open>The registry of declared connections\<close>

text \<open>
  \<open>_declaredConnections\<close> is a plain object \<open>{}\<close> indexed by start URL. Reading
  \<open>obj[key]\<close> follows the prototype chain: a key that is not an own property yields
  what \<open>Object.prototype\<close> holds under that name, and only then \<open>undefined\<close>.
  Assigning to the key \<open>__proto__\<close> replaces the prototype instead of adding an own
  property, and \<open>delete\<close> removes own properties only.
\<close>

datatype jsValue = JsUndefined | JsDeclared declaredConnection | JsInherited

definition objectPrototypeKeys :: "string list" where
  "objectPrototypeKeys =
     [''constructor'', ''__defineGetter__'', ''__defineSetter__'', ''hasOwnProperty'',
      ''__lookupGetter__'', ''__lookupSetter__'', ''isPrototypeOf'',
      ''propertyIsEnumerable'', ''toString'', ''valueOf'', ''__proto__'',
      ''toLocaleString'']"

definition declaredFieldKeys :: "string list" where
  "declaredFieldKeys = [''startUrl'', ''ssoRegion'', ''source'']"

definition declaredLookup :: "'w auth \<Rightarrow> string \<Rightarrow> jsValue" where
  "declaredLookup s k =
     (if k = ''__proto__'' then
        (case declaredProto s of Some d \<Rightarrow> JsDeclared d | None \<Rightarrow> JsInherited)
      else
        case declaredOwn s k of
          Some d \<Rightarrow> JsDeclared d
        | None \<Rightarrow>
            if declaredProto s \<noteq> None \<and> k \<in> set declaredFieldKeys then JsInherited
            else if k \<in> set objectPrototypeKeys then JsInherited
            else JsUndefined)"

text \<open>
  \<open>Auth.declareConnectionFromApi\<close> (lines 1103-1110) and
  \<open>Auth.undeclareConnectionFromApi\<close> (lines 1112-1117). The log message of the latter
  reads the field \<open>source\<close> of the looked-up value, which throws a \<open>TypeError\<close> when the
  value is \<open>undefined\<close>.
\<close>

definition declareConnectionFromApi :: "string \<Rightarrow> string \<Rightarrow> string \<Rightarrow> 'w auth \<Rightarrow> 'w auth" where
  "declareConnectionFromApi startUrl ssoRegion src s =
     (let d = \<lparr>decl_startUrl = startUrl, decl_ssoRegion = ssoRegion, decl_source = src\<rparr>
      in if startUrl = ''__proto__'' then s\<lparr>declaredProto := Some d\<rparr>
         else s\<lparr>declaredOwn := (declaredOwn s)(startUrl \<mapsto> d)\<rparr>)"

definition undeclareConnectionFromApi :: "string \<Rightarrow> 'w auth \<Rightarrow> (error + unit) \<times> 'w auth" where
  "undeclareConnectionFromApi startUrl s =
     (case declaredLookup s startUrl of
        JsUndefined \<Rightarrow>
          (Inl (TypeError ''Cannot read properties of undefined (reading source)''), s)
      | _ \<Rightarrow> (Inr (), s\<lparr>declaredOwn := (declaredOwn s)(startUrl := None)\<rparr>))"

section \<open>Observations on the trace\<close>

text \<open>The calls that fetch or touch the credentials of an IAM connection.\<close>

definition isCredentialFetch :: "event \<Rightarrow> bool" where
  "isCredentialFetch e =
     (case e of
        GetCredentialsProviderCall i \<Rightarrow> True
      | AddProviderCall p \<Rightarrow> True
      | GetCachedCredentialsCall i \<Rightarrow> True
      | CanAutoConnectCall i \<Rightarrow> True
      | UpsertCredentialsCall i \<Rightarrow> True
      | ValidateCredentialsCall i \<Rightarrow> True
      | InvalidateCredentialsCall i \<Rightarrow> True
      | _ \<Rightarrow> False)"

text \<open>The calls that invalidate a connection outside the store.\<close>

definition isExternalInvalidation :: "event \<Rightarrow> bool" where
  "isExternalInvalidation e =
     (case e of
        SsoLogoutCall r tp \<Rightarrow> True
      | InvalidateCall tp reason \<Rightarrow> True
      | InvalidateCredentialsCall i \<Rightarrow> True
      | _ \<Rightarrow> False)"

text \<open>An \<open>activeConnectionChanged\<close> event that carries a connection with the given id.\<close>

definition isActiveChangeFor :: "string \<Rightarrow> event \<Rightarrow> bool" where
  "isActiveChangeFor cid e =
     (case e of
        DidChangeActiveConnection (Some c) \<Rightarrow> conn_id c = cid
      | _ \<Rightarrow> False)"

section \<open>Sample environment and states\<close>

text \<open>
  An environment over a trivial outside world: the token provider answers every
  \<open>getToken\<close> with \<open>tok\<close> and every \<open>createToken\<close> with \<open>created\<close>, the prompt race
  ends with \<open>race\<close>, the provider manager knows every id, the credentials cache is
  empty, no provider can connect silently, and a network error is a collaborator
  error of kind \<open>network\<close>.
\<close>

definition sampleEnv ::
  "(error + string option) \<Rightarrow> (error + string) \<Rightarrow> raceOutcome \<Rightarrow> unit env" where
  "sampleEnv tok created race =
     \<lparr>isNetworkError =
        (\<lambda>e. case e of CollaboratorError k c \<Rightarrow> k = ''network'' | _ \<Rightarrow> False),
      errorCodeInvalidConnection = ''InvalidConnection'',
      internalStartUrl = ''https://internal.example/start'',
      builderIdStartUrl = ''https://builder.example/start'',
      builderIdText = ''Builder ID'',
      iamIdentityCenterText = ''IAM Identity Center'',
      truncateStartUrl = (\<lambda>u. u),
      getCodeCatalystDevEnvId = None,
      isAmazonQ = False,
      scopesCodeCatalyst = [''codecatalyst:read_write''],
      detectSsoSessionNameForCodeCatalyst = ''codecatalyst'',
      randomUUID = (\<lambda>w. (''uuid-1'', w)),
      providerGetToken = (\<lambda>tp w. (tok, w)),
      providerCreateToken = (\<lambda>tp w. (created, w)),
      providerInvalidate = (\<lambda>tp reason w. w),
      clientLogout = (\<lambda>region tp w. w),
      storeInvalidateCredentials = (\<lambda>i w. w),
      managerGetCredentialsProvider = (\<lambda>i w. (Inr True, w)),
      managerAddProvider = (\<lambda>p w. w),
      storeGetCredentials = (\<lambda>i w. (Inr None, w)),
      providerGetHashCode = (\<lambda>p. ''hash''),
      providerGetDefaultRegion = (\<lambda>p. ''us-east-1''),
      providerCanAutoConnect = (\<lambda>p w. (Inr False, w)),
      storeUpsertCredentials = (\<lambda>p w. (Inr ''credentials'', w)),
      validateCredentials = (\<lambda>c region w. (Inr (), w)),
      loginPromptRace = (\<lambda>l ms w. (race, w)),
      credentialProviderNames = []\<rparr>"

definition emptyAuth :: "unit auth" where
  "emptyAuth =
     \<lparr>store = Map.empty, currentProfileId = None, activeConnection = None,
      validationErrors = Map.empty, invalidCredentialsTimeouts = Map.empty,
      declaredOwn = Map.empty, declaredProto = None, isInternalUserContext = None,
      trace = [], world = ()\<rparr>"

definition ssoStored :: "connState \<Rightarrow> storedProfile" where
  "ssoStored st =
     \<lparr>profile = SsoProfile ''https://d-1.example/start'' ''us-east-1'' None,
      metadata = \<lparr>connectionState = st, label = None, source = None\<rparr>\<rparr>"

definition linkedStored :: "connState \<Rightarrow> storedProfile" where
  "linkedStored st =
     \<lparr>profile = LinkedIamProfile ''role'' ''sso-1'' ''111122223333'' ''Admin'',
      metadata = \<lparr>connectionState = st, label = None, source = None\<rparr>\<rparr>"

definition iamStored :: "connState \<Rightarrow> storedProfile" where
  "iamStored st =
     \<lparr>profile = UnknownIamProfile ''default'',
      metadata = \<lparr>connectionState = st, label = None, source = None\<rparr>\<rparr>"

text \<open>A store with one SSO connection \<open>sso-1\<close> and the IAM connection \<open>iam-1\<close> linked to it.\<close>

definition linkedAuth :: "connState \<Rightarrow> connState \<Rightarrow> unit auth" where
  "linkedAuth st1 st2 =
     emptyAuth\<lparr>store := [''sso-1'' \<mapsto> ssoStored st1, ''iam-1'' \<mapsto> linkedStored st2]\<rparr>"

definition invalidAuth :: "unit auth" where
  "invalidAuth =
     emptyAuth\<lparr>store := [''sso-1'' \<mapsto> ssoStored Invalid],
               validationErrors := [''sso-1'' \<mapsto> Error ''expired''],
               invalidCredentialsTimeouts :=
                 [''sso-1'' \<mapsto> \<lparr>duration = 60000, disposed = False\<rparr>]\<rparr>"

text \<open>
  What \<open>(await getToken()) ?? (await createToken())\<close> yields in the outside world \<open>w\<close>:
  the token acquisition of \<open>createConnection\<close>, as an observation.
\<close>

definition tokenAcquisition :: "'w env \<Rightarrow> tokenProvider \<Rightarrow> 'w \<Rightarrow> error + string" where
  "tokenAcquisition env tp w =
     (case providerGetToken env tp w of
        (Inl e, w1) \<Rightarrow> Inl e
      | (Inr (Some t), w1) \<Rightarrow> Inr t
      | (Inr None, w1) \<Rightarrow> fst (providerCreateToken env tp w1))"

definition activeId :: "'w auth \<Rightarrow> string option" where
  "activeId s = map_option conn_id (activeConnection s)"

text \<open>The collaborator calls \<open>invalidateConnection\<close> makes before it updates the state.\<close>

definition invalidationCalls :: "'w env \<Rightarrow> string \<Rightarrow> bool \<Rightarrow> profile \<Rightarrow> event list" where
  "invalidationCalls env cid skipGlobalLogout p =
     (case p of
        SsoProfile u r sc \<Rightarrow>
          (if \<not> skipGlobalLogout
           then [SsoLogoutCall r (getSsoTokenProvider env cid u r sc)] else []) @
          (if getCodeCatalystDevEnvId env = None \<or> isAmazonQ env
           then [InvalidateCall (getSsoTokenProvider env cid u r sc) ''explicitInvalidation'']
           else [])
      | _ \<Rightarrow> [InvalidateCredentialsCall cid])"

text \<open>
  A store with the SSO connections \<open>sso-1\<close> and \<open>sso-2\<close>, the second one active and
  current.
\<close>

definition twoSsoAuth :: "unit auth" where
  "twoSsoAuth =
     emptyAuth\<lparr>store := [''sso-1'' \<mapsto> ssoStored Valid, ''sso-2'' \<mapsto> ssoStored Valid],
               currentProfileId := Some ''sso-2'',
               activeConnection :=
                 Some \<lparr>conn_id = ''sso-2'', conn_type = Sso,
                       conn_profile = Some (ssoStored Valid), conn_state = Valid,
                       conn_label = ''IAM Identity Center (https://d-1.example/start)''\<rparr>\<rparr>"

text \<open>A store with the IAM connection \<open>iam-2\<close>, stored as valid, active and current.\<close>

definition iamActiveAuth :: "unit auth" where
  "iamActiveAuth =
     emptyAuth\<lparr>store := [''iam-2'' \<mapsto> iamStored Valid],
               currentProfileId := Some ''iam-2'',
               activeConnection := Some (getIamConnection ''iam-2'' (iamStored Valid))\<rparr>"


text \<open>
  A step from a state \<open>s\<close> whose active connection has the id \<open>cid\<close> to \<open>s'\<close> leaves
  that connection still when it keeps the profile stored under \<open>cid\<close> and the active
  connection, only appends to the trace, and appends no \<open>activeConnectionChanged\<close>
  event that carries a connection with the id \<open>cid\<close>.
\<close>

definition stillFor :: "string \<Rightarrow> 'w auth \<Rightarrow> 'w auth \<Rightarrow> bool" where
  "stillFor cid s s' =
     (activeId s = Some cid \<longrightarrow>
        store s' cid = store s cid \<and> activeConnection s' = activeConnection s \<and>
        (\<exists>evs. trace s' = trace s @ evs \<and> filter (isActiveChangeFor cid) evs = []))"

text \<open>
  A step from a state \<open>s\<close> whose active connection has the id \<open>cid\<close> to \<open>s'\<close> changes
  the state of that connection at most once: the id stays the active one, a profile
  is stored under it afterwards exactly if one was before, the step only appends to
  the trace, and either the stored state of \<open>cid\<close> and the active connection are as
  before and no \<open>activeConnectionChanged\<close> event with the id \<open>cid\<close> is appended, or the
  active connection is the one before with the new stored state, and exactly one such
  event is appended, carrying it.
\<close>

definition oneFor :: "string \<Rightarrow> 'w auth \<Rightarrow> 'w auth \<Rightarrow> bool" where
  "oneFor cid s s' =
     (activeId s = Some cid \<longrightarrow>
        activeId s' = Some cid \<and> (store s' cid = None) = (store s cid = None) \<and>
        (\<exists>evs. trace s' = trace s @ evs \<and>
           (if getConnectionState s' cid = getConnectionState s cid
            then activeConnection s' = activeConnection s \<and>
                 filter (isActiveChangeFor cid) evs = []
            else activeConnection s'
                   = map_option (\<lambda>c. c\<lparr>conn_state := the (getConnectionState s' cid)\<rparr>)
                       (activeConnection s) \<and>
                 filter (isActiveChangeFor cid) evs
                   = [DidChangeActiveConnection (activeConnection s')])))"

section \<open>Properties of the state transitions\<close>

lemmas sample_defs = sampleEnv_def emptyAuth_def ssoStored_def linkedStored_def
  iamStored_def linkedAuth_def invalidAuth_def twoSsoAuth_def iamActiveAuth_def

lemma ucs_Inr:
  "store s cid = Some p \<Longrightarrow> cs \<noteq> Authenticating \<Longrightarrow>
   \<exists>q. fst (updateConnectionState cid cs s) = Inr (Some q) \<and>
       store (snd (updateConnectionState cid cs s)) cid = Some q \<and>
       connectionState (metadata q) = cs"
  by (auto simp: updateConnectionState_def getProfileOrThrow_def updateMetadata_def
      fire_def disposeTimeout_def Let_def split: option.splits)

lemma ucs_result_stored:
  "updateConnectionState cid cs s = (Inr (Some q), s1) \<Longrightarrow>
   store s1 cid = Some q \<and> connectionState (metadata q) = cs"
  by (auto simp: updateConnectionState_def getProfileOrThrow_def updateMetadata_def
      fire_def disposeTimeout_def Let_def split: option.splits if_splits)

lemma ucs_store_dom:
  "(store (snd (updateConnectionState cid cs s)) k = None) = (store s k = None)"
  by (auto simp: updateConnectionState_def getProfileOrThrow_def updateMetadata_def
      fire_def disposeTimeout_def Let_def split: option.splits)

lemma ucs_trace_fetch:
  "filter isCredentialFetch (trace (snd (updateConnectionState cid cs s))) =
   filter isCredentialFetch (trace s)"
  by (auto simp: updateConnectionState_def getProfileOrThrow_def updateMetadata_def
      fire_def disposeTimeout_def Let_def isCredentialFetch_def split: option.splits)

lemma ucs_invalid_state:
  assumes "updateConnectionState cid Invalid s = (Inr q, s1)"
  shows "getConnectionState s1 cid = Some Invalid"
proof (cases "store s cid")
  case None
  with assms show ?thesis
    by (simp add: updateConnectionState_def getProfileOrThrow_def)
next
  case (Some p)
  from ucs_Inr [OF Some, of Invalid] assms show ?thesis
    by (auto simp: getConnectionState_def getProfile_def)
qed

lemma ucs_valid_to_invalid:
  assumes "store s cid = Some sp" and "connectionState (metadata sp) = Valid"
  shows "\<exists>q s1 evs. updateConnectionState cid Invalid s = (Inr q, s1) \<and>
           getConnectionState s1 cid = Some Invalid \<and>
           validationErrors s1 = validationErrors s \<and>
           invalidCredentialsTimeouts s1 = invalidCredentialsTimeouts s \<and>
           world s1 = world s \<and>
           trace s1 = trace s @ evs @ [DidChangeConnectionState cid Invalid]"
  using assms
  by (auto simp: updateConnectionState_def getProfileOrThrow_def updateMetadata_def
      fire_def Let_def getConnectionState_def getProfile_def split: option.splits)

text \<open>
  C6, as amended. When \<open>updateConnectionState\<close> stores a new state other than
  \<open>invalid\<close> (so \<open>valid\<close> or \<open>unauthenticated\<close>, and in particular when the state leaves
  \<open>invalid\<close>), the entry of the connection in the validation-error registry is removed
  and its pending invalid-credential timer, if any, is disposed. A request for
  \<open>authenticating\<close> only fires the state-change event: stored state, registry and
  timers stay as they are.
\<close>

theorem updateConnectionState_clears_registry:
  "(cs \<noteq> Authenticating \<and> cs \<noteq> Invalid \<and> store s cid = Some p \<and>
    connectionState (metadata p) \<noteq> cs \<longrightarrow>
      getConnectionState (snd (updateConnectionState cid cs s)) cid = Some cs \<and>
      validationErrors (snd (updateConnectionState cid cs s)) cid = None \<and>
      map_option disposed (invalidCredentialsTimeouts (snd (updateConnectionState cid cs s)) cid)
        = map_option (\<lambda>t. True) (invalidCredentialsTimeouts s cid)) \<and>
   updateConnectionState cid Authenticating s
     = (Inr None, fire (DidChangeConnectionState cid Authenticating) s)"
  by (auto simp: updateConnectionState_def getProfileOrThrow_def updateMetadata_def
      fire_def disposeTimeout_def Let_def getConnectionState_def getProfile_def
      split: option.splits)

theorem updateConnectionState_clears_registry_witness:
  "getConnectionState (snd (updateConnectionState ''sso-1'' Valid invalidAuth)) ''sso-1''
     = Some Valid \<and>
   validationErrors (snd (updateConnectionState ''sso-1'' Valid invalidAuth)) ''sso-1'' = None \<and>
   map_option disposed
     (invalidCredentialsTimeouts (snd (updateConnectionState ''sso-1'' Valid invalidAuth)) ''sso-1'')
     = Some True"
  using updateConnectionState_clears_registry
          [where cs = Valid and s = invalidAuth and cid = "''sso-1''"
             and p = "ssoStored Invalid"]
  by (simp add: sample_defs)

text \<open>
  C6 as stated fails for \<open>authenticating\<close>: a connection stored as \<open>invalid\<close> with a
  recorded validation error and a pending timer keeps both when
  \<open>updateConnectionState\<close> is asked for \<open>authenticating\<close>.
\<close>

theorem updateConnectionState_authenticating_keeps_registry:
  "getConnectionState invalidAuth ''sso-1'' = Some Invalid \<and>
   validationErrors (snd (updateConnectionState ''sso-1'' Authenticating invalidAuth)) ''sso-1''
     = Some (Error ''expired'') \<and>
   map_option disposed
     (invalidCredentialsTimeouts
        (snd (updateConnectionState ''sso-1'' Authenticating invalidAuth)) ''sso-1'')
     = Some False"
  by (simp add: sample_defs updateConnectionState_def fire_def getConnectionState_def
      getProfile_def)

section \<open>Properties of validation\<close>

lemmas model_defs = callGetToken_def getSsoTokenProvider_def updateConnectionState_def
  getProfileOrThrow_def updateMetadata_def fire_def disposeTimeout_def
  getConnectionState_def getProfile_def validateCatch_def handleSsoTokenError_def
  throwOnRecoverableError_def isSso_def Let_def

lemma handleSsoTokenError_store:
  "store (snd (handleSsoTokenError env cid err s)) = store s"
  by (simp add: handleSsoTokenError_def split: option.splits)

lemma handleSsoTokenError_trace:
  "trace (snd (handleSsoTokenError env cid err s)) = trace s"
  by (simp add: handleSsoTokenError_def split: option.splits)

lemma validateCatch_result:
  assumes "validateCatch env cid err s = (Inr v, s1)"
  shows "v = None \<and> getConnectionState s1 cid = Some Invalid"
proof -
  obtain r1 t1 where h: "handleSsoTokenError env cid err s = (r1, t1)"
    by (cases "handleSsoTokenError env cid err s") blast
  obtain r2 t2 where u: "updateConnectionState cid Invalid t1 = (r2, t2)"
    by (cases "updateConnectionState cid Invalid t1") blast
  from assms h u show ?thesis
    by (cases r1; cases r2) (auto simp: validateCatch_def dest: ucs_invalid_state)
qed

lemma validateCatch_dom:
  "(store (snd (validateCatch env cid err s)) k = None) = (store s k = None)"
proof -
  obtain r1 t1 where h: "handleSsoTokenError env cid err s = (r1, t1)"
    by (cases "handleSsoTokenError env cid err s") blast
  obtain r2 t2 where u: "updateConnectionState cid Invalid t1 = (r2, t2)"
    by (cases "updateConnectionState cid Invalid t1") blast
  have "store t1 = store s"
    using handleSsoTokenError_store [of env cid err s] h by simp
  moreover have "(store t2 k = None) = (store t1 k = None)"
    using ucs_store_dom [of cid Invalid t1 k] u by simp
  ultimately show ?thesis
    using h u by (cases r1; cases r2) (simp_all add: validateCatch_def)
qed

lemma validateCatch_trace_fetch:
  "filter isCredentialFetch (trace (snd (validateCatch env cid err s)))
     = filter isCredentialFetch (trace s)"
proof -
  obtain r1 t1 where h: "handleSsoTokenError env cid err s = (r1, t1)"
    by (cases "handleSsoTokenError env cid err s") blast
  obtain r2 t2 where u: "updateConnectionState cid Invalid t1 = (r2, t2)"
    by (cases "updateConnectionState cid Invalid t1") blast
  have "trace t1 = trace s"
    using handleSsoTokenError_trace [of env cid err s] h by simp
  moreover have "filter isCredentialFetch (trace t2) = filter isCredentialFetch (trace t1)"
    using ucs_trace_fetch [of cid Invalid t1] u by simp
  ultimately show ?thesis
    using h u by (cases r1; cases r2) (simp_all add: validateCatch_def)
qed

text \<open>Validation of an SSO profile, unfolded once.\<close>

lemma validateConnection_sso:
  assumes "profile sp = SsoProfile u r sc"
  shows "validateConnection env cid sp s =
     (case providerGetToken env (getSsoTokenProvider env cid u r sc) (world s) of
        (Inl e, w) \<Rightarrow>
          validateCatch env cid e
            (fire (GetTokenCall (getSsoTokenProvider env cid u r sc)) (s\<lparr>world := w\<rparr>))
      | (Inr tok, w) \<Rightarrow>
          (case updateConnectionState cid (if tok = None then Invalid else Valid)
                  (fire (GetTokenCall (getSsoTokenProvider env cid u r sc)) (s\<lparr>world := w\<rparr>)) of
             (Inl err, s') \<Rightarrow> validateCatch env cid err s'
           | (Inr v, s') \<Rightarrow> (Inr v, s')))"
  using assms
  by (subst validateConnection.simps)
     (auto simp: callGetToken_def split: prod.splits sum.splits option.splits)


lemma validateConnection_sso_dom:
  assumes "profile sp = SsoProfile u r sc"
  shows "(store (snd (validateConnection env cid sp s)) k = None) = (store s k = None)"
proof -
  let ?tp = "getSsoTokenProvider env cid u r sc"
  obtain r0 w where g: "providerGetToken env ?tp (world s) = (r0, w)"
    by (cases "providerGetToken env ?tp (world s)") blast
  let ?s0 = "fire (GetTokenCall ?tp) (s\<lparr>world := w\<rparr>)"
  have s0: "store ?s0 = store s" by (simp add: fire_def)
  show ?thesis
  proof (cases r0)
    case (Inl e)
    with g s0 validateCatch_dom [of env cid e ?s0 k] show ?thesis
      by (simp add: validateConnection_sso [OF assms])
  next
    case (Inr tok)
    obtain r2 t2 where u:
      "updateConnectionState cid (if tok = None then Invalid else Valid) ?s0 = (r2, t2)"
      by (cases "updateConnectionState cid (if tok = None then Invalid else Valid) ?s0") blast
    have d: "(store t2 k = None) = (store s k = None)"
      using ucs_store_dom [of cid "if tok = None then Invalid else Valid" ?s0 k] u s0 by simp
    show ?thesis
    proof (cases r2)
      case (Inl err)
      with g Inr u d validateCatch_dom [of env cid err t2 k] show ?thesis
        by (simp add: validateConnection_sso [OF assms])
    next
      case (Inr v)
      with g \<open>r0 = Inr tok\<close> u d show ?thesis
        by (simp add: validateConnection_sso [OF assms])
    qed
  qed
qed

lemma validateConnection_sso_trace_fetch:
  assumes "profile sp = SsoProfile u r sc"
  shows "filter isCredentialFetch (trace (snd (validateConnection env cid sp s)))
           = filter isCredentialFetch (trace s)"
proof -
  let ?tp = "getSsoTokenProvider env cid u r sc"
  obtain r0 w where g: "providerGetToken env ?tp (world s) = (r0, w)"
    by (cases "providerGetToken env ?tp (world s)") blast
  let ?s0 = "fire (GetTokenCall ?tp) (s\<lparr>world := w\<rparr>)"
  have s0: "filter isCredentialFetch (trace ?s0) = filter isCredentialFetch (trace s)"
    by (simp add: fire_def isCredentialFetch_def)
  show ?thesis
  proof (cases r0)
    case (Inl e)
    with g s0 validateCatch_trace_fetch [of env cid e ?s0] show ?thesis
      by (simp add: validateConnection_sso [OF assms])
  next
    case (Inr tok)
    obtain r2 t2 where u:
      "updateConnectionState cid (if tok = None then Invalid else Valid) ?s0 = (r2, t2)"
      by (cases "updateConnectionState cid (if tok = None then Invalid else Valid) ?s0") blast
    have d: "filter isCredentialFetch (trace t2) = filter isCredentialFetch (trace s)"
      using ucs_trace_fetch [of cid "if tok = None then Invalid else Valid" ?s0] u s0 by simp
    show ?thesis
    proof (cases r2)
      case (Inl err)
      with g Inr u d validateCatch_trace_fetch [of env cid err t2] show ?thesis
        by (simp add: validateConnection_sso [OF assms])
    next
      case (Inr v)
      with g \<open>r0 = Inr tok\<close> u d show ?thesis
        by (simp add: validateConnection_sso [OF assms])
    qed
  qed
qed

lemma validateConnection_sso_result:
  assumes "profile sp = SsoProfile u r sc"
    and "validateConnection env cid sp s = (Inr v, s1)"
  shows "(map_option (\<lambda>q. connectionState (metadata q)) v = Some Valid)
           = (getConnectionState s1 cid = Some Valid)"
proof -
  let ?tp = "getSsoTokenProvider env cid u r sc"
  obtain r0 w where g: "providerGetToken env ?tp (world s) = (r0, w)"
    by (cases "providerGetToken env ?tp (world s)") blast
  let ?s0 = "fire (GetTokenCall ?tp) (s\<lparr>world := w\<rparr>)"
  show ?thesis
  proof (cases r0)
    case (Inl e)
    with g assms(2) have "validateCatch env cid e ?s0 = (Inr v, s1)"
      by (simp add: validateConnection_sso [OF assms(1)])
    from validateCatch_result [OF this] show ?thesis by simp
  next
    case (Inr tok)
    obtain r2 t2 where u:
      "updateConnectionState cid (if tok = None then Invalid else Valid) ?s0 = (r2, t2)"
      by (cases "updateConnectionState cid (if tok = None then Invalid else Valid) ?s0") blast
    show ?thesis
    proof (cases r2)
      case (Inl err)
      with g Inr u assms(2) have "validateCatch env cid err t2 = (Inr v, s1)"
        by (simp add: validateConnection_sso [OF assms(1)])
      from validateCatch_result [OF this] show ?thesis by simp
    next
      case (Inr v')
      with g \<open>r0 = Inr tok\<close> u assms(2) have e: "v' = v" "t2 = s1"
        by (simp_all add: validateConnection_sso [OF assms(1)])
      show ?thesis
      proof (cases v)
        case None
        with u Inr e show ?thesis
          by (auto simp: updateConnectionState_def getProfileOrThrow_def updateMetadata_def
              Let_def split: option.splits if_splits)
      next
        case (Some q)
        with u Inr e ucs_result_stored [of cid "if tok = None then Invalid else Valid" ?s0 q s1]
        show ?thesis
          by (simp add: getConnectionState_def getProfile_def)
      qed
    qed
  qed
qed


lemma validateConnection_sso_token:
  assumes "profile sp = SsoProfile u r sc" and "store s cid = Some p0"
    and "fst (providerGetToken env (getSsoTokenProvider env cid u r sc) (world s)) = Inr tok"
  shows "(\<exists>v. fst (validateConnection env cid sp s) = Inr v) \<and>
         getConnectionState (snd (validateConnection env cid sp s)) cid
           = Some (if tok = None then Invalid else Valid)"
proof -
  let ?tp = "getSsoTokenProvider env cid u r sc"
  define cs where "cs = (if tok = None then Invalid else Valid)"
  have cs: "cs \<noteq> Authenticating" by (simp add: cs_def)
  obtain w where g: "providerGetToken env ?tp (world s) = (Inr tok, w)"
    using assms(3) by (cases "providerGetToken env ?tp (world s)") simp
  let ?s0 = "fire (GetTokenCall ?tp) (s\<lparr>world := w\<rparr>)"
  have "store ?s0 cid = Some p0" using assms(2) by (simp add: fire_def)
  from ucs_Inr [OF this cs]
  obtain q where
    q: "fst (updateConnectionState cid cs ?s0) = Inr (Some q)"
      "store (snd (updateConnectionState cid cs ?s0)) cid = Some q"
      "connectionState (metadata q) = cs"
    by blast
  obtain t2 where u: "updateConnectionState cid cs ?s0 = (Inr (Some q), t2)"
    using q(1) by (cases "updateConnectionState cid cs ?s0") simp
  have "validateConnection env cid sp s = (Inr (Some q), t2)"
    using g u by (simp add: validateConnection_sso [OF assms(1)] cs_def)
  moreover have "store t2 cid = Some q" using q(2) u by simp
  ultimately show ?thesis
    using q(3) by (simp add: getConnectionState_def getProfile_def cs_def)
qed

lemma validateConnection_linked_source_invalid:
  assumes "profile sp = LinkedIamProfile n session acct role" and "store s cid = Some p0"
    and "store s session = Some src" and "isSso (profile src)"
    and "validateConnection env session src s = (Inr v, s1)"
    and "getConnectionState s1 session \<noteq> Some Valid"
  shows "(\<exists>q. fst (validateConnection env cid sp s) = Inr q) \<and>
         snd (validateConnection env cid sp s) = snd (updateConnectionState cid Invalid s1) \<and>
         getConnectionState (snd (validateConnection env cid sp s)) cid = Some Invalid \<and>
         filter isCredentialFetch (trace (snd (validateConnection env cid sp s)))
           = filter isCredentialFetch (trace s)"
proof -
  from assms(4) obtain u r sc where src: "profile src = SsoProfile u r sc"
    by (cases "profile src") (simp_all add: isSso_def)
  have chk: "map_option (\<lambda>q. connectionState (metadata q)) v \<noteq> Some Valid"
    using validateConnection_sso_result [OF src assms(5)] assms(6) by simp
  have "store s1 cid \<noteq> None"
    using validateConnection_sso_dom [OF src, of env session s cid] assms(2,5) by simp
  then obtain p1 where p1: "store s1 cid = Some p1" by blast
  have "Invalid \<noteq> Authenticating" by simp
  from ucs_Inr [OF p1 this] obtain q t2 where
    u: "updateConnectionState cid Invalid s1 = (Inr (Some q), t2)"
    and q: "store t2 cid = Some q" "connectionState (metadata q) = Invalid"
    by (cases "updateConnectionState cid Invalid s1") auto
  have v: "validateConnection env cid sp s = (Inr (Some q), t2)"
    using assms(1,3,4,5) chk u
    by (subst validateConnection.simps) (simp add: getProfileOrThrow_def)
  have "filter isCredentialFetch (trace t2) = filter isCredentialFetch (trace s1)"
    using ucs_trace_fetch [of cid Invalid s1] u by simp
  moreover have "filter isCredentialFetch (trace s1) = filter isCredentialFetch (trace s)"
    using validateConnection_sso_trace_fetch [OF src, of env session s] assms(5) by simp
  ultimately show ?thesis
    using v u q by (simp add: getConnectionState_def getProfile_def)
qed

text \<open>
  C1. \<open>validateConnection\<close> on a stored SSO profile: when the token provider returns a
  token the call returns and the stored state is \<open>valid\<close>; when it returns nothing
  the call returns (it does not throw) and the stored state is \<open>invalid\<close>. On a
  stored linked IAM profile whose source is a stored SSO profile: the source is
  validated first, from the initial state; when that validation returns and leaves
  the source in a state other than \<open>valid\<close>, the linked connection is set to
  \<open>invalid\<close> in the state the source's validation left, the call returns, and the
  trace has no call that fetches credentials.
\<close>

theorem validateConnection_algorithm:
  "(profile sp = SsoProfile u r sc \<and> store s cid \<noteq> None \<and>
    fst (providerGetToken env (getSsoTokenProvider env cid u r sc) (world s)) = Inr (Some t) \<longrightarrow>
      (\<exists>v. fst (validateConnection env cid sp s) = Inr v) \<and>
      getConnectionState (snd (validateConnection env cid sp s)) cid = Some Valid) \<and>
   (profile sp = SsoProfile u r sc \<and> store s cid \<noteq> None \<and>
    fst (providerGetToken env (getSsoTokenProvider env cid u r sc) (world s)) = Inr None \<longrightarrow>
      (\<exists>v. fst (validateConnection env cid sp s) = Inr v) \<and>
      getConnectionState (snd (validateConnection env cid sp s)) cid = Some Invalid) \<and>
   (profile sp = LinkedIamProfile n session acct role \<and> store s cid \<noteq> None \<and>
    store s session = Some src \<and> isSso (profile src) \<and>
    validateConnection env session src s = (Inr v, s1) \<and>
    getConnectionState s1 session \<noteq> Some Valid \<longrightarrow>
      (\<exists>q. fst (validateConnection env cid sp s) = Inr q) \<and>
      snd (validateConnection env cid sp s) = snd (updateConnectionState cid Invalid s1) \<and>
      getConnectionState (snd (validateConnection env cid sp s)) cid = Some Invalid \<and>
      filter isCredentialFetch (trace (snd (validateConnection env cid sp s)))
        = filter isCredentialFetch (trace s))"
proof (intro conjI impI)
  assume h: "profile sp = SsoProfile u r sc \<and> store s cid \<noteq> None \<and>
    fst (providerGetToken env (getSsoTokenProvider env cid u r sc) (world s)) = Inr (Some t)"
  then obtain p0 where "store s cid = Some p0" by blast
  with h validateConnection_sso_token [of sp u r sc s cid p0 env "Some t"]
  show "\<exists>v. fst (validateConnection env cid sp s) = Inr v"
    and "getConnectionState (snd (validateConnection env cid sp s)) cid = Some Valid"
    by simp_all
next
  assume h: "profile sp = SsoProfile u r sc \<and> store s cid \<noteq> None \<and>
    fst (providerGetToken env (getSsoTokenProvider env cid u r sc) (world s)) = Inr None"
  then obtain p0 where "store s cid = Some p0" by blast
  with h validateConnection_sso_token [of sp u r sc s cid p0 env None]
  show "\<exists>v. fst (validateConnection env cid sp s) = Inr v"
    and "getConnectionState (snd (validateConnection env cid sp s)) cid = Some Invalid"
    by simp_all
next
  assume h: "profile sp = LinkedIamProfile n session acct role \<and> store s cid \<noteq> None \<and>
    store s session = Some src \<and> isSso (profile src) \<and>
    validateConnection env session src s = (Inr v, s1) \<and>
    getConnectionState s1 session \<noteq> Some Valid"
  then obtain p0 where p0: "store s cid = Some p0" by blast
  from h have a: "profile sp = LinkedIamProfile n session acct role"
    "store s session = Some src" "isSso (profile src)"
    "validateConnection env session src s = (Inr v, s1)"
    "getConnectionState s1 session \<noteq> Some Valid"
    by blast+
  note L = validateConnection_linked_source_invalid [OF a(1) p0 a(2) a(3) a(4) a(5)]
  from L show "\<exists>q. fst (validateConnection env cid sp s) = Inr q" by blast
  from L show "snd (validateConnection env cid sp s) = snd (updateConnectionState cid Invalid s1)"
    by blast
  from L show "getConnectionState (snd (validateConnection env cid sp s)) cid = Some Invalid"
    by blast
  from L show "filter isCredentialFetch (trace (snd (validateConnection env cid sp s)))
           = filter isCredentialFetch (trace s)"
    by blast
qed

theorem validateConnection_algorithm_witness:
  "getConnectionState
     (snd (validateConnection (sampleEnv (Inr (Some ''token'')) (Inr ''token'') ChoseNo)
             ''sso-1'' (ssoStored Invalid) (linkedAuth Invalid Valid))) ''sso-1'' = Some Valid \<and>
   getConnectionState
     (snd (validateConnection (sampleEnv (Inr None) (Inr ''token'') ChoseNo)
             ''sso-1'' (ssoStored Valid) (linkedAuth Valid Valid))) ''sso-1'' = Some Invalid \<and>
   getConnectionState
     (snd (validateConnection (sampleEnv (Inr None) (Inr ''token'') ChoseNo)
             ''iam-1'' (linkedStored Valid) (linkedAuth Valid Valid))) ''iam-1'' = Some Invalid \<and>
   filter isCredentialFetch
     (trace (snd (validateConnection (sampleEnv (Inr None) (Inr ''token'') ChoseNo)
             ''iam-1'' (linkedStored Valid) (linkedAuth Valid Valid)))) = []"
  using validateConnection_algorithm
          [where sp = "ssoStored Invalid" and u = "''https://d-1.example/start''"
             and r = "''us-east-1''" and sc = None and s = "linkedAuth Invalid Valid"
             and cid = "''sso-1''"
             and env = "sampleEnv (Inr (Some ''token'')) (Inr ''token'') ChoseNo"
             and t = "''token''"]
        validateConnection_algorithm
          [where sp = "ssoStored Valid" and u = "''https://d-1.example/start''"
             and r = "''us-east-1''" and sc = None and s = "linkedAuth Valid Valid"
             and cid = "''sso-1''"
             and env = "sampleEnv (Inr None) (Inr ''token'') ChoseNo"]
        validateConnection_algorithm
          [where sp = "linkedStored Valid" and n = "''role''" and session = "''sso-1''"
             and acct = "''111122223333''" and role = "''Admin''"
             and s = "linkedAuth Valid Valid" and cid = "''iam-1''"
             and src = "ssoStored Valid"
             and env = "sampleEnv (Inr None) (Inr ''token'') ChoseNo"
             and v = "Some (ssoStored Invalid)"
             and ?s1.0 = "snd (validateConnection (sampleEnv (Inr None) (Inr ''token'') ChoseNo)
                        ''sso-1'' (ssoStored Valid) (linkedAuth Valid Valid))"]
  by (simp add: validateConnection.simps sample_defs model_defs isCredentialFetch_def)


section \<open>Properties of \<open>createConnection\<close>\<close>

lemma createConnection_iam:
  "\<not> isSso p \<Longrightarrow>
   createConnection env p s = (Inl (Error ''Creating IAM connections is not supported''), s)"
  by (cases p) (simp_all add: createConnection_def isSso_def)

lemma createConnection_failure:
  assumes "randomUUID env (world s) = (cid, w)"
    and "tokenAcquisition env (getSsoTokenProvider env cid u r sc) w = Inl err"
  shows "fst (createConnection env (SsoProfile u r sc) s) = Inl err \<and>
         store (snd (createConnection env (SsoProfile u r sc) s)) cid = None"
  using assms
  by (auto simp: createConnection_def tokenAcquisition_def callGetToken_def
      callCreateToken_def updateConnectionState_def fire_def deleteProfile_def Let_def
      split: prod.splits sum.splits option.splits)

lemma createConnection_success:
  assumes "randomUUID env (world s) = (cid, w)"
    and "tokenAcquisition env (getSsoTokenProvider env cid u r sc) w = Inr t"
    and "store s cid = None"
  shows "(\<exists>c. fst (createConnection env (SsoProfile u r sc) s) = Inr c \<and> conn_id c = cid) \<and>
         map_option profile (store (snd (createConnection env (SsoProfile u r sc) s)) cid)
           = Some (SsoProfile u r sc) \<and>
         getConnectionState (snd (createConnection env (SsoProfile u r sc) s)) cid = Some Valid"
  using assms
  by (auto simp: createConnection_def tokenAcquisition_def callGetToken_def
      callCreateToken_def updateConnectionState_def fire_def deleteProfile_def Let_def
      addProfile_def getProfileOrThrow_def updateMetadata_def initMetadata_def
      disposeTimeout_def getSsoConnection_def getConnectionState_def getProfile_def
      split: prod.splits sum.splits option.splits)

text \<open>
  C2. \<open>createConnection\<close> on an IAM profile fails at once and returns the state as it
  was. On an SSO profile, with \<open>cid\<close> the id \<open>randomUUID\<close> generates: when the token
  acquisition (\<open>getToken\<close>, then \<open>createToken\<close> if there is no token) throws, the call
  fails with that same error and the store has no profile under \<open>cid\<close> afterwards;
  when it yields a token and \<open>cid\<close> is fresh, the call returns a connection with id
  \<open>cid\<close>, the profile is stored under \<open>cid\<close> and its stored state is \<open>valid\<close>.
\<close>

theorem createConnection_atomic:
  "(\<not> isSso p \<longrightarrow>
      createConnection env p s = (Inl (Error ''Creating IAM connections is not supported''), s)) \<and>
   (p = SsoProfile u r sc \<and> randomUUID env (world s) = (cid, w) \<and>
    tokenAcquisition env (getSsoTokenProvider env cid u r sc) w = Inl err \<longrightarrow>
      fst (createConnection env p s) = Inl err \<and>
      store (snd (createConnection env p s)) cid = None) \<and>
   (p = SsoProfile u r sc \<and> randomUUID env (world s) = (cid, w) \<and>
    tokenAcquisition env (getSsoTokenProvider env cid u r sc) w = Inr t \<and>
    store s cid = None \<longrightarrow>
      (\<exists>c. fst (createConnection env p s) = Inr c \<and> conn_id c = cid) \<and>
      map_option profile (store (snd (createConnection env p s)) cid) = Some p \<and>
      getConnectionState (snd (createConnection env p s)) cid = Some Valid)"
proof (intro conjI impI)
  assume "\<not> isSso p"
  then show "createConnection env p s
               = (Inl (Error ''Creating IAM connections is not supported''), s)"
    by (rule createConnection_iam)
next
  assume h: "p = SsoProfile u r sc \<and> randomUUID env (world s) = (cid, w) \<and>
             tokenAcquisition env (getSsoTokenProvider env cid u r sc) w = Inl err"
  from h createConnection_failure [of env s cid w u r sc err]
  show "fst (createConnection env p s) = Inl err" by simp
  from h createConnection_failure [of env s cid w u r sc err]
  show "store (snd (createConnection env p s)) cid = None" by simp
next
  assume h: "p = SsoProfile u r sc \<and> randomUUID env (world s) = (cid, w) \<and>
             tokenAcquisition env (getSsoTokenProvider env cid u r sc) w = Inr t \<and>
             store s cid = None"
  from h createConnection_success [of env s cid w u r sc t]
  show "\<exists>c. fst (createConnection env p s) = Inr c \<and> conn_id c = cid" by simp
  from h createConnection_success [of env s cid w u r sc t]
  show "map_option profile (store (snd (createConnection env p s)) cid) = Some p" by simp
  from h createConnection_success [of env s cid w u r sc t]
  show "getConnectionState (snd (createConnection env p s)) cid = Some Valid" by simp
qed

theorem createConnection_atomic_witness:
  "createConnection (sampleEnv (Inr None) (Inr ''token'') ChoseNo) (UnknownIamProfile ''default'')
     emptyAuth = (Inl (Error ''Creating IAM connections is not supported''), emptyAuth) \<and>
   fst (createConnection (sampleEnv (Inr None) (Inl (Error ''cancelled'')) ChoseNo)
          (SsoProfile ''https://d-1.example/start'' ''us-east-1'' None) emptyAuth)
     = Inl (Error ''cancelled'') \<and>
   store (snd (createConnection (sampleEnv (Inr None) (Inl (Error ''cancelled'')) ChoseNo)
          (SsoProfile ''https://d-1.example/start'' ''us-east-1'' None) emptyAuth)) ''uuid-1''
     = None \<and>
   getConnectionState
     (snd (createConnection (sampleEnv (Inr None) (Inr ''token'') ChoseNo)
          (SsoProfile ''https://d-1.example/start'' ''us-east-1'' None) emptyAuth)) ''uuid-1''
     = Some Valid"
  using createConnection_atomic
          [where p = "UnknownIamProfile ''default''"
             and env = "sampleEnv (Inr None) (Inr ''token'') ChoseNo" and s = emptyAuth]
        createConnection_atomic
          [where p = "SsoProfile ''https://d-1.example/start'' ''us-east-1'' None"
             and u = "''https://d-1.example/start''" and r = "''us-east-1''" and sc = None
             and env = "sampleEnv (Inr None) (Inl (Error ''cancelled'')) ChoseNo"
             and s = emptyAuth and cid = "''uuid-1''" and w = "()"
             and err = "Error ''cancelled''"]
        createConnection_atomic
          [where p = "SsoProfile ''https://d-1.example/start'' ''us-east-1'' None"
             and u = "''https://d-1.example/start''" and r = "''us-east-1''" and sc = None
             and env = "sampleEnv (Inr None) (Inr ''token'') ChoseNo"
             and s = emptyAuth and cid = "''uuid-1''" and w = "()" and t = "''token''"]
  by (simp add: sampleEnv_def emptyAuth_def isSso_def tokenAcquisition_def
      getSsoTokenProvider_def)

section \<open>Properties of the interactive recovery\<close>

text \<open>
  C3. \<open>handleInvalidCredentials\<close> on a connection stored as \<open>valid\<close>: the stored state
  is set to \<open>invalid\<close> first, a timer of 60000 ms is recorded under the id in the
  invalid-credential timers, and the login prompt is raced against it. When the race
  ends with anything but the choice of \<open>Login\<close> (the user declines or dismisses, or
  the timer elapses first), the call fails with the error \<open>User cancelled login\<close>
  tagged \<open>cancelled\<close>, and the stored state is still \<open>invalid\<close>. When the user chooses
  \<open>Login\<close>, the result is that of \<open>authenticate\<close> with the same refresh callback, run
  in the state just described.
\<close>

theorem handleInvalidCredentials_was_valid:
  assumes "store s cid = Some sp" and "connectionState (metadata sp) = Valid"
  shows
    "(fst (loginPromptRace env (connLabel env cid sp) 60000 (world s)) \<noteq> ChoseLogin \<longrightarrow>
        fst (handleInvalidCredentials env cid refresh s)
          = Inl (ToolkitError ''User cancelled login'' (Some (errorCodeInvalidConnection env))
                   True (validationErrors s cid)) \<and>
        cancelled (ToolkitError ''User cancelled login''
                     (Some (errorCodeInvalidConnection env)) True (validationErrors s cid)) \<and>
        getConnectionState (snd (handleInvalidCredentials env cid refresh s)) cid
          = Some Invalid \<and>
        invalidCredentialsTimeouts (snd (handleInvalidCredentials env cid refresh s)) cid
          = Some \<lparr>duration = 60000, disposed = False\<rparr> \<and>
        (\<exists>evs. trace (snd (handleInvalidCredentials env cid refresh s))
                 = trace s @ evs @ [DidChangeConnectionState cid Invalid,
                                    LoginPromptCall (connLabel env cid sp) 60000])) \<and>
     (fst (loginPromptRace env (connLabel env cid sp) 60000 (world s)) = ChoseLogin \<longrightarrow>
        (\<exists>s3 evs. handleInvalidCredentials env cid refresh s
                     = authenticate env cid refresh False s3 \<and>
                   getConnectionState s3 cid = Some Invalid \<and>
                   invalidCredentialsTimeouts s3 cid
                     = Some \<lparr>duration = 60000, disposed = False\<rparr> \<and>
                   trace s3 = trace s @ evs @ [DidChangeConnectionState cid Invalid,
                                               LoginPromptCall (connLabel env cid sp) 60000]))"
proof -
  from ucs_valid_to_invalid [OF assms] obtain q s1 evs where
    u: "updateConnectionState cid Invalid s = (Inr q, s1)"
    and st: "getConnectionState s1 cid = Some Invalid"
    and ve: "validationErrors s1 = validationErrors s"
    and ti: "invalidCredentialsTimeouts s1 = invalidCredentialsTimeouts s"
    and wo: "world s1 = world s"
    and tr: "trace s1 = trace s @ evs @ [DidChangeConnectionState cid Invalid]"
    by blast
  obtain resp w where race:
    "loginPromptRace env (connLabel env cid sp) 60000 (world s) = (resp, w)"
    by (cases "loginPromptRace env (connLabel env cid sp) 60000 (world s)") blast
  define s3 where "s3 = fire (LoginPromptCall (connLabel env cid sp) 60000)
     (s1\<lparr>invalidCredentialsTimeouts :=
            (invalidCredentialsTimeouts s1)(cid \<mapsto> \<lparr>duration = 60000, disposed = False\<rparr>),
          world := w\<rparr>)"
  have s3_state: "getConnectionState s3 cid = Some Invalid"
    using st by (simp add: s3_def fire_def getConnectionState_def getProfile_def)
  have s3_timer: "invalidCredentialsTimeouts s3 cid = Some \<lparr>duration = 60000, disposed = False\<rparr>"
    by (simp add: s3_def fire_def)
  have s3_trace: "trace s3 = trace s @ evs @ [DidChangeConnectionState cid Invalid,
                                LoginPromptCall (connLabel env cid sp) 60000]"
    using tr by (simp add: s3_def fire_def)
  have s3_ve: "validationErrors s3 cid = validationErrors s cid"
    using ve by (simp add: s3_def fire_def)
  have decline: "resp \<noteq> ChoseLogin \<Longrightarrow>
      handleInvalidCredentials env cid refresh s
        = (Inl (ToolkitError ''User cancelled login'' (Some (errorCodeInvalidConnection env))
                  True (validationErrors s cid)), s3)"
    using assms u race wo s3_ve
    by (cases resp)
       (simp_all add: handleInvalidCredentials_def getProfileOrThrow_def Let_def
          callLoginPromptRace_def raceResponse_def s3_def)
  have accept: "resp = ChoseLogin \<Longrightarrow>
      handleInvalidCredentials env cid refresh s = authenticate env cid refresh False s3"
    using assms u race wo
    by (simp add: handleInvalidCredentials_def getProfileOrThrow_def Let_def
          callLoginPromptRace_def raceResponse_def s3_def)
  show ?thesis
    using decline accept race s3_state s3_timer s3_trace by auto
qed


theorem handleInvalidCredentials_was_valid_witness:
  "fst (handleInvalidCredentials (sampleEnv (Inr None) (Inr ''token'') TimerElapsed) ''sso-1''
          (callCreateToken (sampleEnv (Inr None) (Inr ''token'') TimerElapsed)
             (TokenProvider ''sso-1'' ''https://d-1.example/start'' None ''us-east-1''))
          (linkedAuth Valid Valid))
     = Inl (ToolkitError ''User cancelled login'' (Some ''InvalidConnection'') True None) \<and>
   getConnectionState
     (snd (handleInvalidCredentials (sampleEnv (Inr None) (Inr ''token'') TimerElapsed) ''sso-1''
          (callCreateToken (sampleEnv (Inr None) (Inr ''token'') TimerElapsed)
             (TokenProvider ''sso-1'' ''https://d-1.example/start'' None ''us-east-1''))
          (linkedAuth Valid Valid))) ''sso-1'' = Some Invalid \<and>
   fst (handleInvalidCredentials (sampleEnv (Inr None) (Inr ''token'') ChoseLogin) ''sso-1''
          (callCreateToken (sampleEnv (Inr None) (Inr ''token'') ChoseLogin)
             (TokenProvider ''sso-1'' ''https://d-1.example/start'' None ''us-east-1''))
          (linkedAuth Valid Valid))
     = Inr ''token'' \<and>
   getConnectionState
     (snd (handleInvalidCredentials (sampleEnv (Inr None) (Inr ''token'') ChoseLogin) ''sso-1''
          (callCreateToken (sampleEnv (Inr None) (Inr ''token'') ChoseLogin)
             (TokenProvider ''sso-1'' ''https://d-1.example/start'' None ''us-east-1''))
          (linkedAuth Valid Valid))) ''sso-1'' = Some Valid"
  using handleInvalidCredentials_was_valid
          [where s = "linkedAuth Valid Valid" and cid = "''sso-1''" and sp = "ssoStored Valid"
             and env = "sampleEnv (Inr None) (Inr ''token'') TimerElapsed"
             and refresh = "callCreateToken (sampleEnv (Inr None) (Inr ''token'') TimerElapsed)
               (TokenProvider ''sso-1'' ''https://d-1.example/start'' None ''us-east-1'')"]
        handleInvalidCredentials_was_valid
          [where s = "linkedAuth Valid Valid" and cid = "''sso-1''" and sp = "ssoStored Valid"
             and env = "sampleEnv (Inr None) (Inr ''token'') ChoseLogin"
             and refresh = "callCreateToken (sampleEnv (Inr None) (Inr ''token'') ChoseLogin)
               (TokenProvider ''sso-1'' ''https://d-1.example/start'' None ''us-east-1'')"]
  by (simp add: sample_defs model_defs handleInvalidCredentials_def callLoginPromptRace_def
      raceResponse_def connLabel_def getSsoProfileLabel_def authenticate_def
      authenticate_impl_def authenticateCatch_def callCreateToken_def)

text \<open>
  C4. \<open>handleInvalidCredentials\<close> on a connection stored as \<open>invalid\<close> fails with the
  error \<open>Connection is invalid or expired. Try logging in again.\<close>, whose cause is
  the entry of the validation-error registry for the id, and returns the state as it
  was: nothing is added to the trace, so no prompt is shown.
\<close>

theorem handleInvalidCredentials_already_invalid:
  "store s cid = Some sp \<Longrightarrow> connectionState (metadata sp) = Invalid \<Longrightarrow>
   handleInvalidCredentials env cid refresh s
     = (Inl (ToolkitError ''Connection is invalid or expired. Try logging in again.''
               (Some (errorCodeInvalidConnection env)) False (validationErrors s cid)), s) \<and>
   trace (snd (handleInvalidCredentials env cid refresh s)) = trace s"
  by (simp add: handleInvalidCredentials_def getProfileOrThrow_def updateConnectionState_def)

theorem handleInvalidCredentials_already_invalid_witness:
  "handleInvalidCredentials (sampleEnv (Inr None) (Inr ''token'') ChoseLogin) ''sso-1''
     (callCreateToken (sampleEnv (Inr None) (Inr ''token'') ChoseLogin)
        (TokenProvider ''sso-1'' ''https://d-1.example/start'' None ''us-east-1''))
     invalidAuth
     = (Inl (ToolkitError ''Connection is invalid or expired. Try logging in again.''
               (Some ''InvalidConnection'') False (Some (Error ''expired''))), invalidAuth)"
  using handleInvalidCredentials_already_invalid
          [where s = invalidAuth and cid = "''sso-1''" and sp = "ssoStored Invalid"
             and env = "sampleEnv (Inr None) (Inr ''token'') ChoseLogin"
             and refresh = "callCreateToken (sampleEnv (Inr None) (Inr ''token'') ChoseLogin)
               (TokenProvider ''sso-1'' ''https://d-1.example/start'' None ''us-east-1'')"]
  by (simp add: sample_defs)

section \<open>Properties of the registry of declared connections\<close>

text \<open>
  C10, as amended. \<open>undeclareConnectionFromApi\<close> on a start URL that is not in the
  registry, is not the name of a member of \<open>Object.prototype\<close> and is not reached
  through a replaced prototype throws a \<open>TypeError\<close> and changes nothing. For a
  start URL other than \<open>__proto__\<close> that was registered by
  \<open>declareConnectionFromApi\<close>, the call returns and the registry has no entry for it
  afterwards.
\<close>

theorem undeclareConnectionFromApi_absent_throws:
  "(declaredOwn s k = None \<and> k \<notin> set objectPrototypeKeys \<and>
    (declaredProto s = None \<or> k \<notin> set declaredFieldKeys) \<longrightarrow>
      undeclareConnectionFromApi k s
        = (Inl (TypeError ''Cannot read properties of undefined (reading source)''), s)) \<and>
   (k \<noteq> ''__proto__'' \<longrightarrow>
      fst (undeclareConnectionFromApi k (declareConnectionFromApi k r src s)) = Inr () \<and>
      declaredOwn (snd (undeclareConnectionFromApi k (declareConnectionFromApi k r src s))) k
        = None \<and>
      declaredOwn (declareConnectionFromApi k r src s) k
        = Some \<lparr>decl_startUrl = k, decl_ssoRegion = r, decl_source = src\<rparr>)"
  by (auto simp: undeclareConnectionFromApi_def declareConnectionFromApi_def
      declaredLookup_def objectPrototypeKeys_def Let_def split: option.splits)

theorem undeclareConnectionFromApi_absent_throws_witness:
  "undeclareConnectionFromApi ''https://d-1.example/start'' emptyAuth
     = (Inl (TypeError ''Cannot read properties of undefined (reading source)''), emptyAuth) \<and>
   fst (undeclareConnectionFromApi ''https://d-1.example/start''
          (declareConnectionFromApi ''https://d-1.example/start'' ''us-east-1'' ''toolkit''
             emptyAuth)) = Inr () \<and>
   declaredOwn (snd (undeclareConnectionFromApi ''https://d-1.example/start''
          (declareConnectionFromApi ''https://d-1.example/start'' ''us-east-1'' ''toolkit''
             emptyAuth))) ''https://d-1.example/start'' = None"
  using undeclareConnectionFromApi_absent_throws
          [of emptyAuth "''https://d-1.example/start''" "''us-east-1''" "''toolkit''"]
  by (simp add: emptyAuth_def objectPrototypeKeys_def declaredFieldKeys_def)

text \<open>
  C10 as stated fails for a start URL that names a member of \<open>Object.prototype\<close>: with
  an empty registry, \<open>undeclareConnectionFromApi\<close> on \<open>constructor\<close> reads the inherited
  member, whose field \<open>source\<close> is \<open>undefined\<close>, and returns without throwing.
\<close>

theorem undeclareConnectionFromApi_inherited_key:
  "declaredOwn emptyAuth ''constructor'' = None \<and>
   undeclareConnectionFromApi ''constructor'' emptyAuth = (Inr (), emptyAuth)"
  by (simp add: emptyAuth_def undeclareConnectionFromApi_def declaredLookup_def
      objectPrototypeKeys_def)


section \<open>Properties of deletion\<close>

lemma ucs_frame:
  "currentProfileId (snd (updateConnectionState cid cs s)) = currentProfileId s \<and>
   activeId (snd (updateConnectionState cid cs s)) = activeId s \<and>
   (activeId s \<noteq> Some cid \<longrightarrow>
      activeConnection (snd (updateConnectionState cid cs s)) = activeConnection s) \<and>
   map_option profile (store (snd (updateConnectionState cid cs s)) k)
     = map_option profile (store s k) \<and>
   filter isExternalInvalidation (trace (snd (updateConnectionState cid cs s)))
     = filter isExternalInvalidation (trace s) \<and>
   (\<exists>evs. trace (snd (updateConnectionState cid cs s)) = trace s @ evs)"
  by (auto simp: updateConnectionState_def getProfileOrThrow_def updateMetadata_def
      fire_def disposeTimeout_def Let_def activeId_def isExternalInvalidation_def
      split: option.splits)

lemma invalidateConnection_ok:
  assumes "store s cid = Some sp"
  shows "\<exists>s1. invalidateConnection env cid skip s = (Inr (), s1) \<and>
           currentProfileId s1 = currentProfileId s \<and>
           activeId s1 = activeId s \<and>
           (activeId s \<noteq> Some cid \<longrightarrow> activeConnection s1 = activeConnection s) \<and>
           (\<forall>k. map_option profile (store s1 k) = map_option profile (store s k)) \<and>
           filter isExternalInvalidation (trace s1)
             = filter isExternalInvalidation (trace s) @ invalidationCalls env cid skip (profile sp) \<and>
           (\<exists>evs. trace s1 = trace s @ evs)"
proof -
  define s0 where "s0 =
    (case profile sp of
       SsoProfile u r sc \<Rightarrow>
         (let provider = getSsoTokenProvider env cid u r sc;
              sa = (if \<not> skip then callClientLogout env r provider s else s)
          in if getCodeCatalystDevEnvId env = None \<or> isAmazonQ env
             then callInvalidate env provider ''explicitInvalidation'' sa
             else sa)
     | _ \<Rightarrow> callInvalidateCredentials env cid s)"
  have fr: "store s0 = store s" "currentProfileId s0 = currentProfileId s"
    "activeConnection s0 = activeConnection s"
    "filter isExternalInvalidation (trace s0)
       = filter isExternalInvalidation (trace s) @ invalidationCalls env cid skip (profile sp)"
    "\<exists>evs. trace s0 = trace s @ evs"
    by (auto simp: s0_def callClientLogout_def callInvalidate_def callInvalidateCredentials_def
        fire_def Let_def invalidationCalls_def isExternalInvalidation_def split: profile.splits)
  have "store s0 cid = Some sp" using assms fr by simp
  moreover have "Invalid \<noteq> Authenticating" by simp
  ultimately obtain q where "fst (updateConnectionState cid Invalid s0) = Inr (Some q)"
    using ucs_Inr by blast
  then obtain s1 where u: "updateConnectionState cid Invalid s0 = (Inr (Some q), s1)"
    by (cases "updateConnectionState cid Invalid s0") simp
  have inv: "invalidateConnection env cid skip s = (Inr (), s1)"
    using assms u by (simp add: invalidateConnection_def getProfileOrThrow_def s0_def)
  have a0: "activeId s0 = activeId s" using fr by (simp add: activeId_def)
  from ucs_frame [of cid Invalid s0] u obtain evs1 where e1: "trace s1 = trace s0 @ evs1"
    by auto
  from fr(5) obtain evs0 where e0: "trace s0 = trace s @ evs0" by blast
  have ext: "\<exists>evs. trace s1 = trace s @ evs" using e0 e1 by simp
  from ucs_frame [of cid Invalid s0] u fr inv a0 ext show ?thesis
    by auto
qed

lemma logout_active:
  assumes "store s cid = Some sp" and "activeConnection s = Some c" and "conn_id c = cid"
  shows "\<exists>s1. logout env s = (Inr (), s1) \<and>
           currentProfileId s1 = None \<and> activeConnection s1 = None \<and>
           (\<forall>k. map_option profile (store s1 k) = map_option profile (store s k)) \<and>
           (\<exists>evs. trace s1 = trace s @ evs @ [DidChangeActiveConnection None]) \<and>
           filter isExternalInvalidation (trace s1)
             = filter isExternalInvalidation (trace s) @ invalidationCalls env cid False (profile sp)"
proof -
  have "store (setCurrentProfileId None s) cid = Some sp"
    using assms(1) by (simp add: setCurrentProfileId_def)
  from invalidateConnection_ok [OF this, of env False] obtain s1 evs where
    i: "invalidateConnection env cid False (setCurrentProfileId None s) = (Inr (), s1)"
    and c: "currentProfileId s1 = currentProfileId (setCurrentProfileId None s)"
    and p: "\<forall>k. map_option profile (store s1 k)
                 = map_option profile (store (setCurrentProfileId None s) k)"
    and f: "filter isExternalInvalidation (trace s1)
             = filter isExternalInvalidation (trace (setCurrentProfileId None s))
               @ invalidationCalls env cid False (profile sp)"
    and e: "trace s1 = trace (setCurrentProfileId None s) @ evs"
    by blast
  have "logout env s
          = (Inr (), fire (DidChangeActiveConnection None) (s1\<lparr>activeConnection := None\<rparr>))"
    using assms(2,3) i by (simp add: logout_def)
  with c p f e show ?thesis
    by (simp add: fire_def setCurrentProfileId_def isExternalInvalidation_def)
qed

text \<open>What the reload of the IAM profiles leaves in the store.\<close>

lemma fold_addMissing:
  "fold addMissing names m k = Some q \<Longrightarrow>
   m k = Some q \<or> (k \<in> set (map fst names) \<and> (\<exists>n. profile q = UnknownIamProfile n))"
proof (induction names arbitrary: m)
  case Nil
  then show ?case by simp
next
  case (Cons e names)
  from Cons.IH [OF Cons.prems [simplified]] show ?case
    by (auto simp: addMissing_def split: option.splits if_splits)
qed

lemma loadIamProfilesIntoStore_store:
  assumes "store (loadIamProfilesIntoStore env s) k = Some q"
  shows "(store s k = Some q \<and> resolves (credentialProviderNames env) (store s) k (profile q)) \<or>
         (k \<in> set (map fst (credentialProviderNames env)) \<and> (\<exists>n. profile q = UnknownIamProfile n))"
proof -
  define kept where "kept =
    (\<lambda>i. case store s i of
            None \<Rightarrow> None
          | Some q \<Rightarrow>
              if resolves (credentialProviderNames env) (store s) i (profile q)
              then Some q else None)"
  have "fold addMissing (credentialProviderNames env) kept k = Some q"
    using assms by (simp add: loadIamProfilesIntoStore_def fire_def Let_def kept_def)
  from fold_addMissing [OF this]
  have "kept k = Some q \<or>
        (k \<in> set (map fst (credentialProviderNames env)) \<and> (\<exists>n. profile q = UnknownIamProfile n))" .
  moreover have "kept k = Some q \<Longrightarrow>
        store s k = Some q \<and> resolves (credentialProviderNames env) (store s) k (profile q)"
    by (auto simp: kept_def split: option.splits if_splits)
  ultimately show ?thesis by blast
qed

lemma loadIamProfilesIntoStore_frame:
  "currentProfileId (loadIamProfilesIntoStore env s) = currentProfileId s \<and>
   activeConnection (loadIamProfilesIntoStore env s) = activeConnection s \<and>
   trace (loadIamProfilesIntoStore env s) = trace s @ [LoadIamProfilesCall]"
  by (simp add: loadIamProfilesIntoStore_def fire_def Let_def)

lemma clearStale_frame:
  "currentProfileId (clearStaleLinkedIamConnections env s) = currentProfileId s \<and>
   activeConnection (clearStaleLinkedIamConnections env s)
     = (case activeConnection s of
          None \<Rightarrow> None
        | Some c \<Rightarrow>
            if store (clearStaleLinkedIamConnections env s) (conn_id c) = None
            then None else Some c) \<and>
   store (clearStaleLinkedIamConnections env s) = store (loadIamProfilesIntoStore env s) \<and>
   filter isExternalInvalidation (trace (clearStaleLinkedIamConnections env s))
     = filter isExternalInvalidation (trace s) \<and>
   (\<exists>evs. trace (clearStaleLinkedIamConnections env s) = trace s @ evs)"
  using loadIamProfilesIntoStore_frame [of env s]
  by (auto simp: clearStaleLinkedIamConnections_def Let_def fire_def isExternalInvalidation_def
      getProfile_def split: option.splits)

lemma deleteConnection_absent:
  "store s cid = None \<Longrightarrow>
   deleteConnection env cid s = (Inr (), fire (DidDeleteConnection cid None) s)"
  by (simp add: deleteConnection_def getProfile_def)

lemma deleteConnection_unfold:
  assumes "store s cid = Some sp"
    and "(if activeId s = Some cid then logout env s else invalidateConnection env cid False s)
           = (Inr (), s1)"
  shows "deleteConnection env cid s
           = (Inr (), fire (DidDeleteConnection cid (Some sp))
                        (if isSso (profile sp)
                         then clearStaleLinkedIamConnections env (deleteProfile cid s1)
                         else deleteProfile cid s1))"
  using assms by (simp add: deleteConnection_def getProfile_def activeId_def Let_def)

text \<open>What is stored under the deleted id afterwards, and what is left of the linked profiles.\<close>

lemma deleteConnection_removed:
  assumes "store s cid = Some sp"
    and "(if activeId s = Some cid then logout env s else invalidateConnection env cid False s)
           = (Inr (), s1)"
    and "store (snd (deleteConnection env cid s)) cid = Some q"
  shows "isSso (profile sp) \<and> cid \<in> set (map fst (credentialProviderNames env)) \<and>
         (\<exists>n. profile q = UnknownIamProfile n)"
proof (cases "isSso (profile sp)")
  case False
  with assms(3) show ?thesis
    by (simp add: deleteConnection_unfold [OF assms(1,2)] fire_def deleteProfile_def)
next
  case True
  let ?s2 = "deleteProfile cid s1"
  have n: "store ?s2 cid = None" by (simp add: deleteProfile_def)
  have "store (loadIamProfilesIntoStore env ?s2) cid = Some q"
    using True assms(3) clearStale_frame [of env ?s2]
    by (simp add: deleteConnection_unfold [OF assms(1,2)] fire_def)
  from loadIamProfilesIntoStore_store [OF this] n True show ?thesis by simp
qed

lemma deleteConnection_step:
  assumes "store s cid = Some sp"
  shows "\<exists>s1. (if activeId s = Some cid then logout env s
               else invalidateConnection env cid False s) = (Inr (), s1) \<and>
              (\<forall>k. map_option profile (store s1 k) = map_option profile (store s k))"
proof (cases "activeId s = Some cid")
  case True
  then obtain c where c: "activeConnection s = Some c" "conn_id c = cid"
    by (auto simp: activeId_def)
  from logout_active [OF assms c, of env] True show ?thesis by auto
next
  case False
  from invalidateConnection_ok [OF assms, of env False] False show ?thesis by auto
qed

lemma deleteConnection_no_linked_left:
  assumes "store s cid = Some sp" and "isSso (profile sp)"
    and "store (snd (deleteConnection env cid s)) l = Some q"
  shows "profile q \<noteq> LinkedIamProfile n cid a r"
proof
  assume lp: "profile q = LinkedIamProfile n cid a r"
  from deleteConnection_step [OF assms(1), of env] obtain s1 where
    step: "(if activeId s = Some cid then logout env s
            else invalidateConnection env cid False s) = (Inr (), s1)"
    by blast
  let ?s2 = "deleteProfile cid s1"
  have n: "store ?s2 cid = None" by (simp add: deleteProfile_def)
  have "store (loadIamProfilesIntoStore env ?s2) l = Some q"
    using assms(2,3) clearStale_frame [of env ?s2]
    by (simp add: deleteConnection_unfold [OF assms(1) step] fire_def)
  from loadIamProfilesIntoStore_store [OF this] lp n show False
    by (simp add: resolves_def)
qed

lemma deleteConnection_sweeps_linked:
  assumes "store s cid = Some sp" and "isSso (profile sp)"
    and "store s l = Some q" and "profile q = LinkedIamProfile n cid a r"
    and "l \<notin> set (map fst (credentialProviderNames env))"
  shows "store (snd (deleteConnection env cid s)) l = None"
proof (rule ccontr)
  assume "store (snd (deleteConnection env cid s)) l \<noteq> None"
  then obtain q' where q': "store (snd (deleteConnection env cid s)) l = Some q'" by blast
  from deleteConnection_step [OF assms(1), of env] obtain s1 where
    step: "(if activeId s = Some cid then logout env s
            else invalidateConnection env cid False s) = (Inr (), s1)"
    and pr: "\<forall>k. map_option profile (store s1 k) = map_option profile (store s k)"
    by blast
  let ?s2 = "deleteProfile cid s1"
  have "store (loadIamProfilesIntoStore env ?s2) l = Some q'"
    using assms(2) q' clearStale_frame [of env ?s2]
    by (simp add: deleteConnection_unfold [OF assms(1) step] fire_def)
  from loadIamProfilesIntoStore_store [OF this] assms(5)
  have k: "store ?s2 l = Some q'" by auto
  have "map_option profile (store s1 l) = Some (LinkedIamProfile n cid a r)"
    using pr assms(3,4) by simp
  moreover have "store s1 l = Some q'"
    using k by (simp add: deleteProfile_def split: if_splits)
  ultimately have "profile q' = LinkedIamProfile n cid a r" by simp
  with deleteConnection_no_linked_left [OF assms(1,2) q'] show False by blast
qed

lemma deleteConnection_active:
  assumes "store s cid = Some sp" and "activeId s = Some cid"
  shows "fst (deleteConnection env cid s) = Inr ()"
    and "last (trace (snd (deleteConnection env cid s))) = DidDeleteConnection cid (Some sp)"
    and "currentProfileId (snd (deleteConnection env cid s)) = None"
    and "activeConnection (snd (deleteConnection env cid s)) = None"
    and "DidChangeActiveConnection None
           \<in> set (drop (length (trace s)) (trace (snd (deleteConnection env cid s))))"
    and "filter isExternalInvalidation (trace (snd (deleteConnection env cid s)))
           = filter isExternalInvalidation (trace (snd (logout env s)))"
    and "filter isExternalInvalidation (trace (snd (deleteConnection env cid s)))
           = filter isExternalInvalidation (trace s)
             @ invalidationCalls env cid False (profile sp)"
proof -
  from assms(2) obtain c where c: "activeConnection s = Some c" "conn_id c = cid"
    by (auto simp: activeId_def)
  from logout_active [OF assms(1) c, of env] obtain s1 evs where
    l: "logout env s = (Inr (), s1)"
    and p: "currentProfileId s1 = None" "activeConnection s1 = None"
      "trace s1 = trace s @ evs @ [DidChangeActiveConnection None]"
      "filter isExternalInvalidation (trace s1)
         = filter isExternalInvalidation (trace s) @ invalidationCalls env cid False (profile sp)"
    by blast
  have step: "(if activeId s = Some cid then logout env s
               else invalidateConnection env cid False s) = (Inr (), s1)"
    using assms(2) l by simp
  let ?s2 = "deleteProfile cid s1"
  have s2: "currentProfileId ?s2 = None" "activeConnection ?s2 = None"
    "trace ?s2 = trace s1"
    using p by (simp_all add: deleteProfile_def)
  from clearStale_frame [of env ?s2] obtain evs2 where
    e2: "trace (clearStaleLinkedIamConnections env ?s2) = trace ?s2 @ evs2" by blast
  show "fst (deleteConnection env cid s) = Inr ()"
    and "last (trace (snd (deleteConnection env cid s))) = DidDeleteConnection cid (Some sp)"
    and "currentProfileId (snd (deleteConnection env cid s)) = None"
    and "activeConnection (snd (deleteConnection env cid s)) = None"
    and "DidChangeActiveConnection None
           \<in> set (drop (length (trace s)) (trace (snd (deleteConnection env cid s))))"
    and "filter isExternalInvalidation (trace (snd (deleteConnection env cid s)))
           = filter isExternalInvalidation (trace (snd (logout env s)))"
    and "filter isExternalInvalidation (trace (snd (deleteConnection env cid s)))
           = filter isExternalInvalidation (trace s)
             @ invalidationCalls env cid False (profile sp)"
    using l step p s2 e2 clearStale_frame [of env ?s2]
    by (auto simp: deleteConnection_unfold [OF assms(1) step] fire_def
        isExternalInvalidation_def)
qed

lemma deleteConnection_not_active:
  assumes "store s cid = Some sp" and "activeId s \<noteq> Some cid"
  shows "fst (deleteConnection env cid s) = Inr ()"
    and "last (trace (snd (deleteConnection env cid s))) = DidDeleteConnection cid (Some sp)"
    and "currentProfileId (snd (deleteConnection env cid s)) = currentProfileId s"
    and "activeConnection (snd (deleteConnection env cid s))
           = (case activeConnection s of
                None \<Rightarrow> None
              | Some c \<Rightarrow>
                  if isSso (profile sp) \<and>
                     store (snd (deleteConnection env cid s)) (conn_id c) = None
                  then None else Some c)"
    and "filter isExternalInvalidation (trace (snd (deleteConnection env cid s)))
           = filter isExternalInvalidation (trace s)
             @ invalidationCalls env cid False (profile sp)"
proof -
  from invalidateConnection_ok [OF assms(1), of env False] assms(2) obtain s1 where
    i: "invalidateConnection env cid False s = (Inr (), s1)"
    and p: "currentProfileId s1 = currentProfileId s" "activeConnection s1 = activeConnection s"
      "filter isExternalInvalidation (trace s1)
         = filter isExternalInvalidation (trace s) @ invalidationCalls env cid False (profile sp)"
    by blast
  have step: "(if activeId s = Some cid then logout env s
               else invalidateConnection env cid False s) = (Inr (), s1)"
    using assms(2) i by simp
  let ?s2 = "deleteProfile cid s1"
  have s2: "currentProfileId ?s2 = currentProfileId s" "activeConnection ?s2 = activeConnection s"
    "trace ?s2 = trace s1"
    using p by (simp_all add: deleteProfile_def)
  show "fst (deleteConnection env cid s) = Inr ()"
    and "last (trace (snd (deleteConnection env cid s))) = DidDeleteConnection cid (Some sp)"
    and "currentProfileId (snd (deleteConnection env cid s)) = currentProfileId s"
    and "filter isExternalInvalidation (trace (snd (deleteConnection env cid s)))
           = filter isExternalInvalidation (trace s)
             @ invalidationCalls env cid False (profile sp)"
    using step p s2 clearStale_frame [of env ?s2]
    by (auto simp: deleteConnection_unfold [OF assms(1) step] fire_def
        isExternalInvalidation_def)
  show "activeConnection (snd (deleteConnection env cid s))
           = (case activeConnection s of
                None \<Rightarrow> None
              | Some c \<Rightarrow>
                  if isSso (profile sp) \<and>
                     store (snd (deleteConnection env cid s)) (conn_id c) = None
                  then None else Some c)"
  proof (cases "isSso (profile sp)")
    case False
    with s2 show ?thesis
      by (simp add: deleteConnection_unfold [OF assms(1) step] fire_def split: option.splits)
  next
    case True
    with s2 clearStale_frame [of env ?s2] show ?thesis
      by (simp add: deleteConnection_unfold [OF assms(1) step] fire_def split: option.splits)
  qed
qed

text \<open>
  C7, as amended. \<open>deleteConnection\<close> on an id with no stored profile returns and only
  fires the deletion event. On a stored profile it returns and fires the deletion event
  last, with the profile it found. Whether or not the connection is the active one, it
  makes the collaborator calls of \<open>invalidateConnection\<close>, after those made before: for
  an SSO profile the server-side logout of the SSO client and then, only outside a
  CodeCatalyst dev environment or in Amazon Q, the drop of the cached token; for an IAM
  profile the invalidation of the cached credentials. A profile is stored under the
  deleted id afterwards only when the deleted profile is an SSO profile and the id is
  the id of an environment credentials provider, and then it is the IAM profile that
  the reload added. When the id is the active connection's, the call goes through
  \<open>logout\<close>: the current-profile pointer and the active connection are cleared, the
  event \<open>activeConnectionChanged\<close> with no connection is among the events that the call
  appends to the trace, and the external invalidation calls are those of \<open>logout\<close>.
  When it is not, the current-profile pointer is kept, and the active connection is
  kept unless the deleted profile is an SSO profile and the store has no profile under
  the active connection's id afterwards: then it is cleared. When the deleted profile
  is an SSO profile, no profile of the store afterwards is an IAM profile linked to the
  deleted id; and a stored IAM profile linked to it whose id is not the id of an
  environment credentials provider is no longer in the store.
\<close>

theorem deleteConnection_semantics:
  "(store s cid = None \<longrightarrow>
      deleteConnection env cid s = (Inr (), fire (DidDeleteConnection cid None) s)) \<and>
   (store s cid = Some sp \<longrightarrow>
      fst (deleteConnection env cid s) = Inr () \<and>
      last (trace (snd (deleteConnection env cid s))) = DidDeleteConnection cid (Some sp)) \<and>
   (store s cid = Some sp \<and> profile sp = SsoProfile u r sc \<longrightarrow>
      filter isExternalInvalidation (trace (snd (deleteConnection env cid s)))
        = filter isExternalInvalidation (trace s)
          @ [SsoLogoutCall r (getSsoTokenProvider env cid u r sc)]
          @ (if getCodeCatalystDevEnvId env = None \<or> isAmazonQ env
             then [InvalidateCall (getSsoTokenProvider env cid u r sc) ''explicitInvalidation'']
             else [])) \<and>
   (store s cid = Some sp \<and> \<not> isSso (profile sp) \<longrightarrow>
      filter isExternalInvalidation (trace (snd (deleteConnection env cid s)))
        = filter isExternalInvalidation (trace s) @ [InvalidateCredentialsCall cid]) \<and>
   (store s cid = Some sp \<and> store (snd (deleteConnection env cid s)) cid = Some q \<longrightarrow>
      isSso (profile sp) \<and> cid \<in> set (map fst (credentialProviderNames env)) \<and>
      (\<exists>n. profile q = UnknownIamProfile n)) \<and>
   (store s cid = Some sp \<and> activeId s = Some cid \<longrightarrow>
      currentProfileId (snd (deleteConnection env cid s)) = None \<and>
      activeConnection (snd (deleteConnection env cid s)) = None \<and>
      DidChangeActiveConnection None
        \<in> set (drop (length (trace s)) (trace (snd (deleteConnection env cid s)))) \<and>
      filter isExternalInvalidation (trace (snd (deleteConnection env cid s)))
        = filter isExternalInvalidation (trace (snd (logout env s)))) \<and>
   (store s cid = Some sp \<and> activeId s \<noteq> Some cid \<longrightarrow>
      currentProfileId (snd (deleteConnection env cid s)) = currentProfileId s \<and>
      activeConnection (snd (deleteConnection env cid s))
        = (case activeConnection s of
             None \<Rightarrow> None
           | Some c \<Rightarrow>
               if isSso (profile sp) \<and>
                  store (snd (deleteConnection env cid s)) (conn_id c) = None
               then None else Some c)) \<and>
   (store s cid = Some sp \<and> isSso (profile sp) \<and>
    store (snd (deleteConnection env cid s)) l = Some q' \<longrightarrow>
      profile q' \<noteq> LinkedIamProfile n cid a rn) \<and>
   (store s cid = Some sp \<and> isSso (profile sp) \<and> store s l = Some ql \<and>
    profile ql = LinkedIamProfile n cid a rn \<and>
    l \<notin> set (map fst (credentialProviderNames env)) \<longrightarrow>
      store (snd (deleteConnection env cid s)) l = None)"
proof (intro conjI impI)
  assume "store s cid = None"
  then show "deleteConnection env cid s = (Inr (), fire (DidDeleteConnection cid None) s)"
    by (rule deleteConnection_absent)
next
  assume h: "store s cid = Some sp"
  show "fst (deleteConnection env cid s) = Inr ()"
    using deleteConnection_active(1) [OF h, of env] deleteConnection_not_active(1) [OF h, of env]
    by (cases "activeId s = Some cid") simp_all
  show "last (trace (snd (deleteConnection env cid s))) = DidDeleteConnection cid (Some sp)"
    using deleteConnection_active(2) [OF h, of env] deleteConnection_not_active(2) [OF h, of env]
    by (cases "activeId s = Some cid") simp_all
next
  assume h: "store s cid = Some sp \<and> profile sp = SsoProfile u r sc"
  then have h1: "store s cid = Some sp" and h2: "profile sp = SsoProfile u r sc" by simp_all
  have "filter isExternalInvalidation (trace (snd (deleteConnection env cid s)))
        = filter isExternalInvalidation (trace s)
          @ invalidationCalls env cid False (profile sp)"
    using deleteConnection_active(7) [OF h1, of env] deleteConnection_not_active(5) [OF h1, of env]
    by (cases "activeId s = Some cid") simp_all
  then show "filter isExternalInvalidation (trace (snd (deleteConnection env cid s)))
        = filter isExternalInvalidation (trace s)
          @ [SsoLogoutCall r (getSsoTokenProvider env cid u r sc)]
          @ (if getCodeCatalystDevEnvId env = None \<or> isAmazonQ env
             then [InvalidateCall (getSsoTokenProvider env cid u r sc) ''explicitInvalidation'']
             else [])"
    using h2 by (simp add: invalidationCalls_def)
next
  assume h: "store s cid = Some sp \<and> \<not> isSso (profile sp)"
  then have h1: "store s cid = Some sp" and h2: "\<not> isSso (profile sp)" by simp_all
  have "filter isExternalInvalidation (trace (snd (deleteConnection env cid s)))
        = filter isExternalInvalidation (trace s)
          @ invalidationCalls env cid False (profile sp)"
    using deleteConnection_active(7) [OF h1, of env] deleteConnection_not_active(5) [OF h1, of env]
    by (cases "activeId s = Some cid") simp_all
  then show "filter isExternalInvalidation (trace (snd (deleteConnection env cid s)))
        = filter isExternalInvalidation (trace s) @ [InvalidateCredentialsCall cid]"
    using h2 by (cases "profile sp") (simp_all add: invalidationCalls_def isSso_def)
next
  assume h: "store s cid = Some sp \<and> store (snd (deleteConnection env cid s)) cid = Some q"
  then have h1: "store s cid = Some sp"
    and h2: "store (snd (deleteConnection env cid s)) cid = Some q" by simp_all
  from deleteConnection_step [OF h1, of env] obtain s1 where
    "(if activeId s = Some cid then logout env s
      else invalidateConnection env cid False s) = (Inr (), s1) \<and>
     (\<forall>k. map_option profile (store s1 k) = map_option profile (store s k))" by blast
  then have st: "(if activeId s = Some cid then logout env s
      else invalidateConnection env cid False s) = (Inr (), s1)" by simp
  note R = deleteConnection_removed [OF h1 st h2]
  from R show "isSso (profile sp)" by simp
  from R show "cid \<in> set (map fst (credentialProviderNames env))" by simp
  from R show "\<exists>n. profile q = UnknownIamProfile n" by simp
next
  assume h: "store s cid = Some sp \<and> activeId s = Some cid"
  then have h1: "store s cid = Some sp" and h2: "activeId s = Some cid" by simp_all
  show "currentProfileId (snd (deleteConnection env cid s)) = None"
    by (rule deleteConnection_active(3) [OF h1 h2])
  show "activeConnection (snd (deleteConnection env cid s)) = None"
    by (rule deleteConnection_active(4) [OF h1 h2])
  show "DidChangeActiveConnection None
        \<in> set (drop (length (trace s)) (trace (snd (deleteConnection env cid s))))"
    by (rule deleteConnection_active(5) [OF h1 h2])
  show "filter isExternalInvalidation (trace (snd (deleteConnection env cid s)))
        = filter isExternalInvalidation (trace (snd (logout env s)))"
    by (rule deleteConnection_active(6) [OF h1 h2])
next
  assume h: "store s cid = Some sp \<and> activeId s \<noteq> Some cid"
  then have h1: "store s cid = Some sp" and h2: "activeId s \<noteq> Some cid" by simp_all
  show "currentProfileId (snd (deleteConnection env cid s)) = currentProfileId s"
    by (rule deleteConnection_not_active(3) [OF h1 h2])
  show "activeConnection (snd (deleteConnection env cid s))
        = (case activeConnection s of
             None \<Rightarrow> None
           | Some c \<Rightarrow>
               if isSso (profile sp) \<and>
                  store (snd (deleteConnection env cid s)) (conn_id c) = None
               then None else Some c)"
    by (rule deleteConnection_not_active(4) [OF h1 h2])
next
  assume h: "store s cid = Some sp \<and> isSso (profile sp) \<and>
    store (snd (deleteConnection env cid s)) l = Some q'"
  then have h1: "store s cid = Some sp" and h2: "isSso (profile sp)"
    and h3: "store (snd (deleteConnection env cid s)) l = Some q'" by simp_all
  show "profile q' \<noteq> LinkedIamProfile n cid a rn"
    by (rule deleteConnection_no_linked_left [OF h1 h2 h3])
next
  assume h: "store s cid = Some sp \<and> isSso (profile sp) \<and> store s l = Some ql \<and>
    profile ql = LinkedIamProfile n cid a rn \<and>
    l \<notin> set (map fst (credentialProviderNames env))"
  then have h1: "store s cid = Some sp" and h2: "isSso (profile sp)"
    and h3: "store s l = Some ql" and h4: "profile ql = LinkedIamProfile n cid a rn"
    and h5: "l \<notin> set (map fst (credentialProviderNames env))" by simp_all
  show "store (snd (deleteConnection env cid s)) l = None"
    by (rule deleteConnection_sweeps_linked [OF h1 h2 h3 h4 h5])
qed

lemmas delete_defs = activeId_def deleteConnection_def getProfile_def logout_def
  setCurrentProfileId_def invalidateConnection_def getProfileOrThrow_def
  getSsoTokenProvider_def callClientLogout_def callInvalidate_def
  callInvalidateCredentials_def updateConnectionState_def updateMetadata_def fire_def
  deleteProfile_def isSso_def clearStaleLinkedIamConnections_def
  loadIamProfilesIntoStore_def resolves_def addMissing_def initMetadata_def
  isExternalInvalidation_def disposeTimeout_def Let_def

theorem deleteConnection_semantics_witness:
  "deleteConnection (sampleEnv (Inr None) (Inr ''token'') ChoseNo) ''sso-9'' twoSsoAuth
     = (Inr (), fire (DidDeleteConnection ''sso-9'' None) twoSsoAuth) \<and>
   fst (deleteConnection (sampleEnv (Inr None) (Inr ''token'') ChoseNo) ''sso-2'' twoSsoAuth)
     = Inr () \<and>
   store (snd (deleteConnection (sampleEnv (Inr None) (Inr ''token'') ChoseNo) ''sso-2''
                 twoSsoAuth)) ''sso-2'' = None \<and>
   currentProfileId (snd (deleteConnection (sampleEnv (Inr None) (Inr ''token'') ChoseNo) ''sso-2''
                 twoSsoAuth)) = None \<and>
   activeConnection (snd (deleteConnection (sampleEnv (Inr None) (Inr ''token'') ChoseNo) ''sso-2''
                 twoSsoAuth)) = None \<and>
   DidChangeActiveConnection None
     \<in> set (trace (snd (deleteConnection (sampleEnv (Inr None) (Inr ''token'') ChoseNo) ''sso-2''
                 twoSsoAuth))) \<and>
   currentProfileId (snd (deleteConnection (sampleEnv (Inr None) (Inr ''token'') ChoseNo) ''sso-1''
                 twoSsoAuth)) = Some ''sso-2'' \<and>
   filter isExternalInvalidation
     (trace (snd (deleteConnection
        ((sampleEnv (Inr None) (Inr ''token'') ChoseNo)\<lparr>getCodeCatalystDevEnvId := Some ''env-1''\<rparr>)
        ''sso-1'' twoSsoAuth)))
     = [SsoLogoutCall ''us-east-1''
          (TokenProvider ''sso-1'' ''https://d-1.example/start'' None ''us-east-1'')] \<and>
   filter isExternalInvalidation
     (trace (snd (deleteConnection (sampleEnv (Inr None) (Inr ''token'') ChoseNo) ''iam-2''
                    iamActiveAuth)))
     = [InvalidateCredentialsCall ''iam-2''] \<and>
   (\<exists>n. map_option profile
     (store (snd (deleteConnection
        ((sampleEnv (Inr None) (Inr ''token'') ChoseNo)
           \<lparr>credentialProviderNames := [(''sso-1'', ''default'')]\<rparr>)
        ''sso-1'' twoSsoAuth)) ''sso-1'') = Some (UnknownIamProfile n)) \<and>
   store (snd (deleteConnection (sampleEnv (Inr None) (Inr ''token'') ChoseNo) ''sso-1''
                 (linkedAuth Valid Valid))) ''iam-1'' = None"
proof -
  let ?env = "sampleEnv (Inr None) (Inr ''token'') ChoseNo"
  let ?dev = "?env\<lparr>getCodeCatalystDevEnvId := Some ''env-1''\<rparr>"
  let ?named = "?env\<lparr>credentialProviderNames := [(''sso-1'', ''default'')]\<rparr>"
  let ?q = "\<lparr>profile = UnknownIamProfile ''default'', metadata = initMetadata\<rparr>"
  have s9: "store twoSsoAuth ''sso-9'' = None"
    and s2: "store twoSsoAuth ''sso-2'' = Some (ssoStored Valid)"
    and s1: "store twoSsoAuth ''sso-1'' = Some (ssoStored Valid)"
    and act: "activeId twoSsoAuth = Some ''sso-2''"
    and cur: "currentProfileId twoSsoAuth = Some ''sso-2''"
    and tr: "trace twoSsoAuth = []"
    by (simp_all add: twoSsoAuth_def emptyAuth_def activeId_def)
  have p: "profile (ssoStored Valid) = SsoProfile ''https://d-1.example/start'' ''us-east-1'' None"
    and sso: "isSso (profile (ssoStored Valid))"
    by (simp_all add: ssoStored_def isSso_def)
  have a: "deleteConnection ?env ''sso-9'' twoSsoAuth
             = (Inr (), fire (DidDeleteConnection ''sso-9'' None) twoSsoAuth)"
    using deleteConnection_semantics [where s = twoSsoAuth and cid = "''sso-9''" and env = ?env]
      s9 by simp
  have b: "fst (deleteConnection ?env ''sso-2'' twoSsoAuth) = Inr () \<and>
           currentProfileId (snd (deleteConnection ?env ''sso-2'' twoSsoAuth)) = None \<and>
           activeConnection (snd (deleteConnection ?env ''sso-2'' twoSsoAuth)) = None \<and>
           DidChangeActiveConnection None
             \<in> set (trace (snd (deleteConnection ?env ''sso-2'' twoSsoAuth)))"
    using deleteConnection_semantics
            [where s = twoSsoAuth and cid = "''sso-2''" and sp = "ssoStored Valid" and env = ?env]
      s2 act tr by simp
  have names: "credentialProviderNames ?env = []"
    by (simp add: sampleEnv_def)
  have b': "store (snd (deleteConnection ?env ''sso-2'' twoSsoAuth)) ''sso-2'' = None"
    using deleteConnection_semantics
            [where s = twoSsoAuth and cid = "''sso-2''" and sp = "ssoStored Valid" and env = ?env
               and q = "the (store (snd (deleteConnection ?env ''sso-2'' twoSsoAuth)) ''sso-2'')"]
      s2 names
    by (cases "store (snd (deleteConnection ?env ''sso-2'' twoSsoAuth)) ''sso-2''") simp_all
  have c: "currentProfileId (snd (deleteConnection ?env ''sso-1'' twoSsoAuth)) = Some ''sso-2''"
    using deleteConnection_semantics
            [where s = twoSsoAuth and cid = "''sso-1''" and sp = "ssoStored Valid" and env = ?env]
      s1 act cur by simp
  have dev: "getCodeCatalystDevEnvId ?dev = Some ''env-1''" "\<not> isAmazonQ ?dev"
    by (simp_all add: sampleEnv_def)
  have tp: "getSsoTokenProvider ?dev ''sso-1'' ''https://d-1.example/start'' ''us-east-1'' None
              = TokenProvider ''sso-1'' ''https://d-1.example/start'' None ''us-east-1''"
    by (simp add: getSsoTokenProvider_def)
  have d: "filter isExternalInvalidation
             (trace (snd (deleteConnection ?dev ''sso-1'' twoSsoAuth)))
           = [SsoLogoutCall ''us-east-1''
                (TokenProvider ''sso-1'' ''https://d-1.example/start'' None ''us-east-1'')]"
    using deleteConnection_semantics
            [where s = twoSsoAuth and cid = "''sso-1''" and sp = "ssoStored Valid"
               and u = "''https://d-1.example/start''" and r = "''us-east-1''" and sc = None
               and env = ?dev]
      s1 p dev tp tr by simp
  have i2: "store iamActiveAuth ''iam-2'' = Some (iamStored Valid)"
    and itr: "trace iamActiveAuth = []"
    and ni: "\<not> isSso (profile (iamStored Valid))"
    by (simp_all add: iamActiveAuth_def emptyAuth_def iamStored_def isSso_def)
  have e: "filter isExternalInvalidation
             (trace (snd (deleteConnection ?env ''iam-2'' iamActiveAuth)))
           = [InvalidateCredentialsCall ''iam-2'']"
    using deleteConnection_semantics
            [where s = iamActiveAuth and cid = "''iam-2''" and sp = "iamStored Valid"
               and env = ?env]
      i2 itr ni by simp
  have f0: "store (snd (deleteConnection ?named ''sso-1'' twoSsoAuth)) ''sso-1'' = Some ?q"
    by (simp add: sample_defs delete_defs)
  have f: "\<exists>n. map_option profile
             (store (snd (deleteConnection ?named ''sso-1'' twoSsoAuth)) ''sso-1'')
           = Some (UnknownIamProfile n)"
    using deleteConnection_semantics
            [where s = twoSsoAuth and cid = "''sso-1''" and sp = "ssoStored Valid"
               and q = ?q and env = ?named] s1 f0
    by simp
  have l1: "store (linkedAuth Valid Valid) ''sso-1'' = Some (ssoStored Valid)"
    and l2: "store (linkedAuth Valid Valid) ''iam-1'' = Some (linkedStored Valid)"
    and l3: "profile (linkedStored Valid)
               = LinkedIamProfile ''role'' ''sso-1'' ''111122223333'' ''Admin''"
    by (simp_all add: linkedAuth_def emptyAuth_def linkedStored_def)
  have g: "store (snd (deleteConnection ?env ''sso-1'' (linkedAuth Valid Valid))) ''iam-1'' = None"
    using deleteConnection_semantics
            [where s = "linkedAuth Valid Valid" and cid = "''sso-1''" and sp = "ssoStored Valid"
               and l = "''iam-1''" and ql = "linkedStored Valid" and n = "''role''"
               and a = "''111122223333''" and rn = "''Admin''" and env = ?env]
      l1 l2 l3 sso names by simp
  from a b b' c d e f g show ?thesis by simp
qed

text \<open>
  C7 as stated fails where it sets deleting a connection that is not the active one
  apart as a local invalidation: deleting the stored SSO connection \<open>sso-1\<close> while
  \<open>sso-2\<close> is the active one makes the server-side logout call of the SSO client and
  drops the token, the same external invalidation as for the active connection.
\<close>

theorem deleteConnection_not_active_logs_out:
  "activeId twoSsoAuth = Some ''sso-2'' \<and>
   filter isExternalInvalidation
     (trace (snd (deleteConnection (sampleEnv (Inr None) (Inr ''token'') ChoseNo) ''sso-1''
                    twoSsoAuth)))
     = [SsoLogoutCall ''us-east-1''
          (TokenProvider ''sso-1'' ''https://d-1.example/start'' None ''us-east-1''),
        InvalidateCall
          (TokenProvider ''sso-1'' ''https://d-1.example/start'' None ''us-east-1'')
          ''explicitInvalidation'']"
  by (simp add: sample_defs activeId_def deleteConnection_def getProfile_def
      invalidateConnection_def getProfileOrThrow_def getSsoTokenProvider_def
      callClientLogout_def callInvalidate_def updateConnectionState_def updateMetadata_def
      fire_def deleteProfile_def isSso_def clearStaleLinkedIamConnections_def
      loadIamProfilesIntoStore_def resolves_def isExternalInvalidation_def Let_def)

section \<open>Properties of \<open>useConnection\<close>\<close>






















lemma oneFor_then_stillFor:
  assumes a: "oneFor cid s s1" and b: "stillFor cid s1 s2"
  shows "oneFor cid s s2"
  unfolding oneFor_def
proof (intro impI)
  assume act: "activeId s = Some cid"
  from a [unfolded oneFor_def] act obtain evs1 where a1: "activeId s1 = Some cid"
    and n1: "(store s1 cid = None) = (store s cid = None)"
    and t1: "trace s1 = trace s @ evs1"
    and i1: "if getConnectionState s1 cid = getConnectionState s cid
            then activeConnection s1 = activeConnection s \<and>
                 filter (isActiveChangeFor cid) evs1 = []
            else activeConnection s1
                   = map_option (\<lambda>c. c\<lparr>conn_state := the (getConnectionState s1 cid)\<rparr>)
                       (activeConnection s) \<and>
                 filter (isActiveChangeFor cid) evs1
                   = [DidChangeActiveConnection (activeConnection s1)]"
    by (elim impE conjE exE) (assumption, rule that)
  from b a1 obtain evs2 where st: "store s2 cid = store s1 cid"
    and ac: "activeConnection s2 = activeConnection s1"
    and t2: "trace s2 = trace s1 @ evs2" and f2: "filter (isActiveChangeFor cid) evs2 = []"
    by (auto simp: stillFor_def)
  from st have gs: "getConnectionState s2 cid = getConnectionState s1 cid"
    by (simp add: getConnectionState_def getProfile_def)
  have f: "filter (isActiveChangeFor cid) (evs1 @ evs2) = filter (isActiveChangeFor cid) evs1"
    using f2 by simp
  show "activeId s2 = Some cid \<and> (store s2 cid = None) = (store s cid = None) \<and>
        (\<exists>evs. trace s2 = trace s @ evs \<and>
           (if getConnectionState s2 cid = getConnectionState s cid
            then activeConnection s2 = activeConnection s \<and>
                 filter (isActiveChangeFor cid) evs = []
            else activeConnection s2
                   = map_option (\<lambda>c. c\<lparr>conn_state := the (getConnectionState s2 cid)\<rparr>)
                       (activeConnection s) \<and>
                 filter (isActiveChangeFor cid) evs
                   = [DidChangeActiveConnection (activeConnection s2)]))"
  proof (intro conjI exI [where x = "evs1 @ evs2"])
    show "activeId s2 = Some cid" using a1 ac by (simp add: activeId_def)
    show "(store s2 cid = None) = (store s cid = None)" using n1 st by simp
    show "trace s2 = trace s @ evs1 @ evs2" using t1 t2 by simp
    show "if getConnectionState s2 cid = getConnectionState s cid
            then activeConnection s2 = activeConnection s \<and>
                 filter (isActiveChangeFor cid) (evs1 @ evs2) = []
            else activeConnection s2
                   = map_option (\<lambda>c. c\<lparr>conn_state := the (getConnectionState s2 cid)\<rparr>)
                       (activeConnection s) \<and>
                 filter (isActiveChangeFor cid) (evs1 @ evs2)
                   = [DidChangeActiveConnection (activeConnection s2)]"
      using i1 unfolding f gs ac .
  qed
qed







lemma ucs_Inl_absent:
  "updateConnectionState j cs s = (Inl e, s1) \<Longrightarrow> store s j = None"
  by (auto simp: updateConnectionState_def getProfileOrThrow_def updateMetadata_def Let_def
      split: option.splits if_splits)























section \<open>Recoverable failures\<close>

text \<open>
  A network or disk-cache failure of the token provider's \<open>getToken\<close>, met directly in
  the validation of an SSO connection or in \<open>_getToken\<close>, is thrown again wrapped in a
  \<open>ToolkitError\<close> with the failure as cause, and the call leaves everything but the
  trace and the outside world as it was.
\<close>

lemma validateConnection_sso_recoverable:
  assumes "profile sp = SsoProfile u r sc"
    and "providerGetToken env (getSsoTokenProvider env cid u r sc) (world s) = (Inl e, w)"
    and "isNetworkError env e \<or> isDiskCacheError e"
  shows "\<exists>msg. validateConnection env cid sp s
           = (Inl (ToolkitError msg (errCode e) False (Some e)),
              fire (GetTokenCall (getSsoTokenProvider env cid u r sc)) (s\<lparr>world := w\<rparr>))"
  using assms
  by (auto simp: validateConnection_sso [OF assms(1)] validateCatch_def
      handleSsoTokenError_def throwOnRecoverableError_def)

lemma getToken_impl_recoverable:
  assumes "providerGetToken env provider (world s) = (Inl e, w)"
    and "isNetworkError env e \<or> isDiskCacheError e"
  shows "\<exists>msg. getToken_impl env cid provider s
           = (Inl (ToolkitError msg (errCode e) False (Some e)),
              fire (GetTokenCall provider) (s\<lparr>world := w\<rparr>))"
  using assms
  by (auto simp: getToken_impl_def callGetToken_def throwOnRecoverableError_def)

text \<open>
  C5 does not hold on the code for a failure met while a linked IAM connection
  validates its source. With the SSO connection \<open>sso-1\<close> and the linked IAM connection
  \<open>iam-1\<close> both stored as valid, and a token provider whose \<open>getToken\<close> fails with a
  \<open>DiskCacheError\<close>: the validation of \<open>sso-1\<close> throws the wrapping \<open>ToolkitError\<close> and
  leaves \<open>sso-1\<close> valid; the handler of the validation of \<open>iam-1\<close> receives the wrapper,
  which is neither a \<open>DiskCacheError\<close> nor a network error, records it as the
  validation error of \<open>iam-1\<close>, sets \<open>iam-1\<close> to \<open>invalid\<close> and returns without
  throwing.
\<close>

theorem validateConnection_linked_disk_failure:
  "fst (validateConnection (sampleEnv (Inl (DiskCacheError ''EIO'')) (Inr ''token'') ChoseNo)
          ''iam-1'' (linkedStored Valid) (linkedAuth Valid Valid)) = Inr None \<and>
   getConnectionState
     (snd (validateConnection (sampleEnv (Inl (DiskCacheError ''EIO'')) (Inr ''token'') ChoseNo)
             ''iam-1'' (linkedStored Valid) (linkedAuth Valid Valid))) ''iam-1'' = Some Invalid \<and>
   getConnectionState
     (snd (validateConnection (sampleEnv (Inl (DiskCacheError ''EIO'')) (Inr ''token'') ChoseNo)
             ''iam-1'' (linkedStored Valid) (linkedAuth Valid Valid))) ''sso-1'' = Some Valid \<and>
   validationErrors
     (snd (validateConnection (sampleEnv (Inl (DiskCacheError ''EIO'')) (Inr ''token'') ChoseNo)
             ''iam-1'' (linkedStored Valid) (linkedAuth Valid Valid))) ''iam-1''
     = Some (ToolkitError ''Failed to update connection due to file system operation failures''
               (Some ''EIO'') False (Some (DiskCacheError ''EIO'')))"
  by (simp add: validateConnection.simps sample_defs model_defs)


end
